theory Spec2Isabelle
  imports Main "HOL-Library.Sublist"
begin

section \<open>Python values, exceptions, dictionaries and data frames\<close>

text \<open>
  The values that occur in the dictionaries returned by the API client and in the cells
  of the data frames built from them. \<open>PNaN\<close> is the missing-value marker that
  \<^verbatim>\<open>DataFrame.explode\<close> writes for an empty list.
\<close>

datatype pyval =
    PNone
  | PNaN
  | PBool bool
  | PInt int
  | PStr string
  | PList "pyval list"

text \<open>
  Exceptions, as values. \<open>ExternalError\<close> stands for whatever the API client, the
  credentials loader or the warehouse client raises; the others are raised by the
  interpreter on the code of \<^verbatim>\<open>nodes.py\<close> itself. Each carries the text that
  \<^verbatim>\<open>str(e)\<close> is built from.
\<close>

datatype error =
    KeyError string
  | IndexError string
  | TypeError string
  | AttributeError string
  | ExternalError string

fun py_str :: "error \<Rightarrow> string" where
  "py_str (KeyError k) = [CHR 0x27] @ k @ [CHR 0x27]"
| "py_str (IndexError m) = m"
| "py_str (TypeError m) = m"
| "py_str (AttributeError m) = m"
| "py_str (ExternalError m) = m"

text \<open>
  A Python \<^verbatim>\<open>dict\<close> keeps its keys in insertion order: an association list whose
  keys are distinct. \<^verbatim>\<open>d[k] = v\<close> overwrites the value in place when the key is
  there and appends the pair otherwise.
\<close>

type_synonym dict = "(string \<times> pyval) list"

fun setitem :: "('k \<times> 'v) list \<Rightarrow> 'k \<Rightarrow> 'v \<Rightarrow> ('k \<times> 'v) list" where
  "setitem [] k v = [(k, v)]"
| "setitem (p # ps) k v = (if fst p = k then (k, v) # ps else p # setitem ps k v)"

definition getitem :: "dict \<Rightarrow> string \<Rightarrow> error + pyval" where
  "getitem d k = (case map_of d k of None \<Rightarrow> Inl (KeyError k) | Some v \<Rightarrow> Inr v)"

text \<open>\<^verbatim>\<open>d.pop(k, None)\<close>: the value (or \<^verbatim>\<open>None\<close>) and the dictionary without the key.\<close>

definition pop :: "dict \<Rightarrow> string \<Rightarrow> pyval \<times> dict" where
  "pop d k = (case map_of d k of None \<Rightarrow> PNone | Some v \<Rightarrow> v, filter (\<lambda>p. fst p \<noteq> k) d)"

text \<open>The truth value Python gives a value in \<^verbatim>\<open>if x:\<close>.\<close>

fun truthy :: "pyval \<Rightarrow> bool" where
  "truthy PNone = False"
| "truthy PNaN = True"
| "truthy (PBool b) = b"
| "truthy (PInt i) = (i \<noteq> 0)"
| "truthy (PStr s) = (s \<noteq> [])"
| "truthy (PList xs) = (xs \<noteq> [])"

text \<open>
  A data frame is the list of its rows, each row a dictionary from column name to cell;
  \<^verbatim>\<open>pd.concat([a, b], ignore_index=True)\<close> is \<open>a @ b\<close>.

  \<open>exploded_frame pc p cc v\<close> is the expression
  \<^verbatim>\<open>pd.DataFrame([{pc: p, cc: v}]).explode(cc)\<close>
  that every relation table of the source is built from. pandas documents
  \<^verbatim>\<open>explode\<close> so: each element of a list-like becomes a row; scalars are returned
  unchanged; an empty list-like results in \<^verbatim>\<open>np.nan\<close> for that row.
\<close>

type_synonym row = dict
type_synonym dataframe = "row list"

fun explode_cell :: "pyval \<Rightarrow> pyval list" where
  "explode_cell (PList []) = [PNaN]"
| "explode_cell (PList (x # xs)) = x # xs"
| "explode_cell v = [v]"

definition exploded_frame :: "string \<Rightarrow> pyval \<Rightarrow> string \<Rightarrow> pyval \<Rightarrow> dataframe" where
  "exploded_frame pc p cc v = map (\<lambda>y. [(pc, p), (cc, y)]) (explode_cell v)"

section \<open>Text: lower-casing, tokens, substrings\<close>

text \<open>
  Strings are modelled on ASCII text. \<^verbatim>\<open>str.lower\<close> maps \<open>A\<close>..\<open>Z\<close> to
  \<open>a\<close>..\<open>z\<close>; \<^verbatim>\<open>\w\<close> matches letters, digits and the underscore.
\<close>

definition lower_char :: "char \<Rightarrow> char" where
  "lower_char c =
     (let n = (of_char c :: nat) in if 65 \<le> n \<and> n \<le> 90 then char_of (n + 32) else c)"

definition lower :: "string \<Rightarrow> string" where
  "lower s = map lower_char s"

definition is_word_char :: "char \<Rightarrow> bool" where
  "is_word_char c =
     (let n = (of_char c :: nat) in
        (48 \<le> n \<and> n \<le> 57) \<or> (65 \<le> n \<and> n \<le> 90) \<or> n = 95 \<or> (97 \<le> n \<and> n \<le> 122))"

text \<open>
  \<^verbatim>\<open>re.findall(r'\b\w+\b', s)\<close>: the maximal runs of word characters of \<open>s\<close>, from
  left to right. \<open>cur\<close> is the run being read.
\<close>

fun findall_from :: "string \<Rightarrow> string \<Rightarrow> string list" where
  "findall_from cur [] = (if cur = [] then [] else [cur])"
| "findall_from cur (c # cs) =
     (if is_word_char c then findall_from (cur @ [c]) cs
      else (if cur = [] then [] else [cur]) @ findall_from [] cs)"

definition findall_words :: "string \<Rightarrow> string list" where
  "findall_words s = findall_from [] s"

section \<open>The most relevant tag of a publication (lines 421-426)\<close>

text \<open>
  \<^verbatim>\<open>sum(1 for word in words if word.lower() in tag.lower())\<close>; Python's \<^verbatim>\<open>in\<close> on
  strings is the contiguous-substring test, \<^const>\<open>sublist\<close> on lists of characters.
\<close>

definition relevance :: "string list \<Rightarrow> string \<Rightarrow> nat" where
  "relevance words tag = length (filter (\<lambda>word. sublist (lower word) (lower tag)) words)"

text \<open>
  A \<^verbatim>\<open>Counter\<close> is a dictionary of counts. \<^verbatim>\<open>most_common(1)\<close> is
  \<^verbatim>\<open>heapq.nlargest(1, items, key=count)\<close>, which for \<open>n = 1\<close> is Python's \<^verbatim>\<open>max\<close>
  over the items in dictionary order: the running maximum is replaced only by a strictly
  greater count. On an empty counter the result is the empty list.
\<close>

type_synonym counter = "(string \<times> nat) list"

fun max_item :: "string \<times> nat \<Rightarrow> counter \<Rightarrow> string \<times> nat" where
  "max_item best [] = best"
| "max_item best (x # xs) = max_item (if snd best < snd x then x else best) xs"

definition most_common_1 :: "counter \<Rightarrow> counter" where
  "most_common_1 c = (case c of [] \<Rightarrow> [] | x # xs \<Rightarrow> [max_item x xs])"

text \<open>The loop that fills the counter (lines 423-425).\<close>

definition hashtag_relevance :: "string list \<Rightarrow> string list \<Rightarrow> counter" where
  "hashtag_relevance words tags = fold (\<lambda>tag c. setitem c tag (relevance words tag)) tags []"

definition score_words :: "string list \<Rightarrow> string list \<Rightarrow> error + string" where
  "score_words words tags =
     (case most_common_1 (hashtag_relevance words tags) of
        [] \<Rightarrow> Inl (IndexError ''list index out of range'')
      | x # _ \<Rightarrow> Inr (fst x))"

definition most_relevant_tag :: "string \<Rightarrow> string list \<Rightarrow> error + string" where
  "most_relevant_tag description tags = score_words (findall_words (lower description)) tags"

text \<open>
  The count as the specification words it, for comparison: the number of description
  tokens that contain the lower-cased tag.
\<close>

definition spec_relevance :: "string list \<Rightarrow> string \<Rightarrow> nat" where
  "spec_relevance words tag = length (filter (\<lambda>word. sublist (lower tag) word) words)"

section \<open>The outside world: log, warehouse, API client\<close>

text \<open>
  What a run leaves behind besides its return value: the lines written by
  \<^verbatim>\<open>logger.error\<close>, the calls of \<^verbatim>\<open>to_gbq\<close> that were made (destination and
  table, in order), and the tables the warehouse accepted.
\<close>

record world =
  log :: "string list"
  gbq_calls :: "(string \<times> dataframe) list"
  warehouse :: "(string \<times> dataframe) list"

definition logger_error :: "string \<Rightarrow> world \<Rightarrow> world" where
  "logger_error msg w = w\<lparr>log := log w @ [msg]\<rparr>"

text \<open>
  The objects of the API client. Every attribute but \<^verbatim>\<open>_id\<close> is a property that
  asks the server when read, so reading it yields a value or raises.
\<close>

record user =
  u_id :: string
  u_info :: "error + dict"
  u_followers_ids :: "error + pyval"
  u_following_ids :: "error + pyval"
  u_article_ids :: "error + pyval"

record comment =
  c_info :: "error + dict"

record article =
  a_info :: "error + dict"
  a_fans_ids :: "error + pyval"
  a_related_articles_ids :: "error + pyval"
  a_is_self_published :: "error + pyval"
  a_content :: "error + pyval"
  a_markdown :: "error + pyval"
  a_responses :: "error + comment list"

record publication =
  p_info :: "error + dict"
  p_articles :: "error + string list"

record date =
  year :: nat
  month :: nat
  day :: nat

type_synonym credentials = string
type_synonym config = "string \<rightharpoonup> string"

text \<open>
  The collaborators of \<^verbatim>\<open>nodes.py\<close>, as parameters of every operation:
  \<^verbatim>\<open>medium_instance.article\<close>, \<^verbatim>\<open>medium_instance.search_publications\<close>,
  \<^verbatim>\<open>medium_instance.topfeeds(...).ids\<close>, the clock (the date it shows after \<open>n\<close>
  feed requests of the invocation), \<^verbatim>\<open>Credentials.from_service_account_file\<close> (its
  argument is \<^verbatim>\<open>None\<close> when the path is not configured) and \<^verbatim>\<open>to_gbq\<close>
  (\<open>None\<close>: the table was appended).
\<close>

record env =
  medium_article :: "pyval \<Rightarrow> error + article"
  medium_search_publications :: "string \<Rightarrow> error + publication list"
  medium_topfeeds_ids :: "string \<Rightarrow> pyval \<Rightarrow> string \<Rightarrow> error + pyval"
  datetime_now :: "nat \<Rightarrow> date"
  from_service_account_file :: "string option \<Rightarrow> error + credentials"
  to_gbq :: "dataframe \<Rightarrow> string \<Rightarrow> credentials \<Rightarrow> error option"

section \<open>Loading the tables of one operation (the \<^verbatim>\<open>if load_to_bq:\<close> blocks)\<close>

text \<open>How an f-string renders the result of \<^verbatim>\<open>google_cloud_config.get(key)\<close>.\<close>

definition fmt :: "string option \<Rightarrow> string" where
  "fmt v = (case v of None \<Rightarrow> ''None'' | Some s \<Rightarrow> s)"

definition destination :: "config \<Rightarrow> string \<Rightarrow> string" where
  "destination cfg key =
     fmt (cfg ''project'') @ ''.'' @ fmt (cfg ''dataset_id'') @ ''.'' @ fmt (cfg key)"

text \<open>
  One \<^verbatim>\<open>try: to_gbq(df, f"{project_id}.{dataset_id}.{table}", ...) except Exception\<close>
  block.
\<close>

definition try_load :: "env \<Rightarrow> config \<Rightarrow> credentials \<Rightarrow> string \<times> dataframe \<Rightarrow> world \<Rightarrow> world" where
  "try_load E cfg cred kd w =
     (let dest = destination cfg (fst kd);
          w1 = w\<lparr>gbq_calls := gbq_calls w @ [(dest, snd kd)]\<rparr>
      in case to_gbq E (snd kd) dest cred of
           None \<Rightarrow> w1\<lparr>warehouse := warehouse w1 @ [(dest, snd kd)]\<rparr>
         | Some e \<Rightarrow>
             logger_error (''Uploading records to table: '' @ fmt (cfg (fst kd))
                           @ '' failed. Error: '' @ py_str e) w1)"

text \<open>
  The whole block: the configuration is read with \<^verbatim>\<open>.get\<close>, the credentials are
  loaded outside any \<^verbatim>\<open>try\<close>, then the tables are loaded one \<^verbatim>\<open>try\<close> each, in the
  order of the source. \<open>tabs\<close> pairs the configuration key of each table name with the
  table.
\<close>

definition load_tables :: "env \<Rightarrow> config \<Rightarrow> (string \<times> dataframe) list \<Rightarrow> world \<Rightarrow> error option \<times> world" where
  "load_tables E cfg tabs w =
     (case from_service_account_file E (cfg ''credentials_path'') of
        Inl e \<Rightarrow> (Some e, w)
      | Inr cred \<Rightarrow> (None, fold (try_load E cfg cred) tabs w))"

definition finish :: "env \<Rightarrow> config \<Rightarrow> bool \<Rightarrow> (string \<times> dataframe) list \<Rightarrow> 'a \<Rightarrow> world \<Rightarrow> (error + 'a) \<times> world" where
  "finish E cfg load_to_bq tabs result w =
     (if load_to_bq then
        (case load_tables E cfg tabs w of
           (Some e, w') \<Rightarrow> (Inl e, w')
         | (None, w') \<Rightarrow> (Inr result, w'))
      else (Inr result, w))"

section \<open>\<^verbatim>\<open>extract_users\<close>\<close>

record users_tables =
  users_info_df :: dataframe
  users_top_writer_in_df :: dataframe
  user_followers_df :: dataframe
  user_followings_df :: dataframe
  users_articles_df :: dataframe

definition no_users_tables :: users_tables where
  "no_users_tables = \<lparr>users_info_df = [], users_top_writer_in_df = [], user_followers_df = [],
     user_followings_df = [], users_articles_df = []\<rparr>"

text \<open>The first \<^verbatim>\<open>try\<close> of the loop body (lines 73-88).\<close>

definition try_user_info :: "user \<Rightarrow> users_tables \<times> world \<Rightarrow> users_tables \<times> world" where
  "try_user_info u tw =
     (let t = fst tw; w = snd tw;
          failed = (\<lambda>e. (t, logger_error (''Getting user info failed for user_id: '' @ u_id u
                                          @ ''. Error: '' @ py_str e) w))
      in case u_info u of
           Inl e \<Rightarrow> failed e
         | Inr info0 \<Rightarrow>
             (let user_top_writer_in = fst (pop info0 ''top_writer_in'');
                  user_info = snd (pop info0 ''top_writer_in'')
              in if truthy user_top_writer_in then
                   (case getitem user_info ''id'' of
                      Inl e \<Rightarrow> failed e
                    | Inr uid \<Rightarrow>
                        (t\<lparr>users_top_writer_in_df := users_top_writer_in_df t
                               @ exploded_frame ''user_id'' uid ''keyword'' user_top_writer_in,
                            users_info_df := users_info_df t @ [user_info]\<rparr>, w))
                 else (t\<lparr>users_info_df := users_info_df t @ [user_info]\<rparr>, w)))"

text \<open>The second, third and fourth \<^verbatim>\<open>try\<close> (lines 90-109).\<close>

definition try_user_followers :: "user \<Rightarrow> users_tables \<times> world \<Rightarrow> users_tables \<times> world" where
  "try_user_followers u tw =
     (let t = fst tw; w = snd tw
      in case u_followers_ids u of
           Inl e \<Rightarrow> (t, logger_error (''Getting followers users failed for user_id: '' @ u_id u
                                      @ ''. Error: '' @ py_str e) w)
         | Inr v \<Rightarrow> (t\<lparr>user_followers_df := user_followers_df t
                          @ exploded_frame ''user_id'' (PStr (u_id u)) ''follower_id'' v\<rparr>, w))"

definition try_user_followings :: "user \<Rightarrow> users_tables \<times> world \<Rightarrow> users_tables \<times> world" where
  "try_user_followings u tw =
     (let t = fst tw; w = snd tw
      in case u_following_ids u of
           Inl e \<Rightarrow> (t, logger_error (''Getting following users failed for user_id: '' @ u_id u
                                      @ ''. Error: '' @ py_str e) w)
         | Inr v \<Rightarrow> (t\<lparr>user_followings_df := user_followings_df t
                          @ exploded_frame ''user_id'' (PStr (u_id u)) ''following_id'' v\<rparr>, w))"

definition try_user_articles :: "user \<Rightarrow> users_tables \<times> world \<Rightarrow> users_tables \<times> world" where
  "try_user_articles u tw =
     (let t = fst tw; w = snd tw
      in case u_article_ids u of
           Inl e \<Rightarrow> (t, logger_error (''Getting articles for user_id: '' @ u_id u
                                      @ '' failed. Error: '' @ py_str e) w)
         | Inr v \<Rightarrow> (t\<lparr>users_articles_df := users_articles_df t
                          @ exploded_frame ''user_id'' (PStr (u_id u)) ''article_id'' v\<rparr>, w))"

definition user_step :: "user \<Rightarrow> users_tables \<times> world \<Rightarrow> users_tables \<times> world" where
  "user_step u tw =
     try_user_articles u (try_user_followings u (try_user_followers u (try_user_info u tw)))"

definition users_load_list :: "users_tables \<Rightarrow> (string \<times> dataframe) list" where
  "users_load_list t =
     [(''user_info_table'', users_info_df t),
      (''users_top_writer_in_table'', users_top_writer_in_df t),
      (''user_followers_table'', user_followers_df t),
      (''user_followings_table'', user_followings_df t),
      (''users_articles_table'', users_articles_df t)]"

definition extract_users :: "env \<Rightarrow> user list \<Rightarrow> config \<Rightarrow> bool \<Rightarrow> world \<Rightarrow> (error + users_tables) \<times> world" where
  "extract_users E top_writers_users google_cloud_config load_to_bq w =
     (let tw = fold user_step top_writers_users (no_users_tables, w)
      in finish E google_cloud_config load_to_bq (users_load_list (fst tw)) (fst tw) (snd tw))"

section \<open>Sequencing statements that may raise\<close>

definition bind_err :: "error + 'a \<Rightarrow> ('a \<Rightarrow> error + 'b) \<Rightarrow> error + 'b" where
  "bind_err x f = (case x of Inl e \<Rightarrow> Inl e | Inr v \<Rightarrow> f v)"

text \<open>A \<^verbatim>\<open>for\<close> loop whose body is not inside a \<^verbatim>\<open>try\<close>: the first raise ends it.\<close>

fun for_each :: "('a \<Rightarrow> 's \<Rightarrow> error + 's) \<Rightarrow> 'a list \<Rightarrow> 's \<Rightarrow> error + 's" where
  "for_each body [] s = Inr s"
| "for_each body (x # xs) s =
     (case body x s of Inl e \<Rightarrow> Inl e | Inr s' \<Rightarrow> for_each body xs s')"

text \<open>
  The recurring statement
  \<^verbatim>\<open>if v: df = pd.concat([df, pd.DataFrame([{pc: info['id'], cc: v}]).explode(cc)])\<close>.
\<close>

definition add_relation :: "dict \<Rightarrow> string \<Rightarrow> string \<Rightarrow> pyval \<Rightarrow> dataframe \<Rightarrow> error + dataframe" where
  "add_relation info pc cc v df =
     (if truthy v then bind_err (getitem info ''id'') (\<lambda>i. Inr (df @ exploded_frame pc i cc v))
      else Inr df)"

section \<open>\<^verbatim>\<open>fetch_user_articles_info\<close>\<close>

record articles_tables =
  articles_info_df :: dataframe
  article_tags_df :: dataframe
  article_topics_df :: dataframe
  article_fans_id_df :: dataframe
  article_related_articles_ids_df :: dataframe
  articles_comments_info_df :: dataframe
  article_comments_tag_info_df :: dataframe
  article_comments_topic_info_df :: dataframe

definition no_articles_tables :: articles_tables where
  "no_articles_tables = \<lparr>articles_info_df = [], article_tags_df = [], article_topics_df = [],
     article_fans_id_df = [], article_related_articles_ids_df = [],
     articles_comments_info_df = [], article_comments_tag_info_df = [],
     article_comments_topic_info_df = []\<rparr>"

text \<open>The body of the inner loop over the responses of an article (lines 258-274).\<close>

definition comment_step :: "pyval \<Rightarrow> comment \<Rightarrow> articles_tables \<Rightarrow> error + articles_tables" where
  "comment_step aid c t =
     bind_err (c_info c) (\<lambda>info0.
       let info1 = setitem info0 ''article_id'' aid;
           comment_tag = fst (pop info1 ''tags'');
           info2 = snd (pop info1 ''tags'');
           comment_topic = fst (pop info2 ''topics'');
           comment_info = snd (pop info2 ''topics'');
           t1 = t\<lparr>articles_comments_info_df := articles_comments_info_df t @ [comment_info]\<rparr>
       in bind_err (add_relation comment_info ''comment_id'' ''tag'' comment_tag
                      (article_comments_tag_info_df t1)) (\<lambda>tag_df.
          bind_err (add_relation comment_info ''comment_id'' ''topic'' comment_topic
                      (article_comments_topic_info_df t1)) (\<lambda>topic_df.
          Inr (t1\<lparr>article_comments_tag_info_df := tag_df,
                  article_comments_topic_info_df := topic_df\<rparr>))))"

text \<open>The body of the loop over \<^verbatim>\<open>users_articles_df.iterrows()\<close> (lines 221-274).\<close>

definition article_step :: "env \<Rightarrow> row \<Rightarrow> articles_tables \<Rightarrow> error + articles_tables" where
  "article_step E row t =
     bind_err (getitem row ''article_id'') (\<lambda>aid.
     bind_err (medium_article E aid) (\<lambda>article_object.
     bind_err (a_info article_object) (\<lambda>info0.
     bind_err (a_fans_ids article_object) (\<lambda>fans.
     bind_err (a_related_articles_ids article_object) (\<lambda>related.
     bind_err (a_is_self_published article_object) (\<lambda>self_published.
     bind_err (a_content article_object) (\<lambda>content.
     bind_err (a_markdown article_object) (\<lambda>markdown.
       let info1 = setitem (setitem (setitem (setitem (setitem info0
                     ''fans_ids'' fans) ''related_articles_ids'' related)
                     ''is_self_published'' self_published) ''content'' content)
                     ''markdown'' markdown;
           article_tags = fst (pop info1 ''tags'');
           info2 = snd (pop info1 ''tags'');
           article_topics = fst (pop info2 ''topics'');
           info3 = snd (pop info2 ''topics'');
           article_fans_id = fst (pop info3 ''fans_ids'');
           info4 = snd (pop info3 ''fans_ids'');
           article_related_articles_ids = fst (pop info4 ''related_articles_ids'');
           article_info = snd (pop info4 ''related_articles_ids'')
       in bind_err (add_relation article_info ''article_id'' ''tag'' article_tags
                      (article_tags_df t)) (\<lambda>tags_df.
          bind_err (add_relation article_info ''article_id'' ''topic'' article_topics
                      (article_topics_df t)) (\<lambda>topics_df.
          bind_err (add_relation article_info ''article_id'' ''fan_id'' article_fans_id
                      (article_fans_id_df t)) (\<lambda>fans_df.
          bind_err (add_relation article_info ''article_id'' ''related_article_id''
                      article_related_articles_ids
                      (article_related_articles_ids_df t)) (\<lambda>related_df.
          bind_err (a_responses article_object) (\<lambda>comments.
            for_each (comment_step aid) comments
              (t\<lparr>article_tags_df := tags_df, article_topics_df := topics_df,
                 article_fans_id_df := fans_df,
                 article_related_articles_ids_df := related_df,
                 articles_info_df := articles_info_df t @ [article_info]\<rparr>))))))))))))))"

definition articles_load_list :: "articles_tables \<Rightarrow> (string \<times> dataframe) list" where
  "articles_load_list t =
     [(''articles_info_table'', articles_info_df t),
      (''article_tags_table'', article_tags_df t),
      (''article_topics_table'', article_topics_df t),
      (''article_fans_id_table'', article_fans_id_df t),
      (''article_related_articles_table'', article_related_articles_ids_df t),
      (''articles_comments_info_table'', articles_comments_info_df t),
      (''article_comments_tag_info_table'', article_comments_tag_info_df t),
      (''article_comments_topic_info_table'', article_comments_topic_info_df t)]"

definition fetch_user_articles_info :: "env \<Rightarrow> dataframe \<Rightarrow> config \<Rightarrow> bool \<Rightarrow> world \<Rightarrow> (error + articles_tables) \<times> world" where
  "fetch_user_articles_info E users_articles google_cloud_config load_to_bq w =
     (case for_each (article_step E) users_articles no_articles_tables of
        Inl e \<Rightarrow> (Inl e, w)
      | Inr t \<Rightarrow> finish E google_cloud_config load_to_bq (articles_load_list t) t w)"

section \<open>\<^verbatim>\<open>fetch_publications_info\<close>\<close>

record publications_tables =
  publication_info_df :: dataframe
  publication_tags_df :: dataframe
  publication_editors_df :: dataframe
  publication_articles_df :: dataframe

definition no_publications_tables :: publications_tables where
  "no_publications_tables = \<lparr>publication_info_df = [], publication_tags_df = [],
     publication_editors_df = [], publication_articles_df = []\<rparr>"

text \<open>\<^verbatim>\<open>publication_info['description'].lower()\<close>: only a string has the method.\<close>

fun str_lower :: "pyval \<Rightarrow> error + string" where
  "str_lower (PStr s) = Inr (lower s)"
| "str_lower v = Inl (AttributeError ''object has no attribute lower'')"

text \<open>
  What \<^verbatim>\<open>for tag in publication_tags\<close> runs over. The API gives a list of strings;
  \<^verbatim>\<open>None\<close> (the key was absent) and the other scalars are not iterable, and a string
  is iterated character by character. A list with an element that is not a string is
  outside what the API returns; the model lets it raise as \<^verbatim>\<open>tag.lower()\<close> does.
\<close>

fun the_str :: "pyval \<Rightarrow> string option" where
  "the_str (PStr s) = Some s"
| "the_str v = None"

fun iter_tags :: "pyval \<Rightarrow> error + string list" where
  "iter_tags (PList xs) =
     (if list_all (\<lambda>x. the_str x \<noteq> None) xs then Inr (map (\<lambda>x. case x of PStr s \<Rightarrow> s | _ \<Rightarrow> []) xs)
      else Inl (AttributeError ''object has no attribute lower''))"
| "iter_tags (PStr s) = Inr (map (\<lambda>c. [c]) s)"
| "iter_tags v = Inl (TypeError ''object is not iterable'')"

text \<open>The body of the loop over the publications found (lines 415-444).\<close>

definition publication_step :: "publication \<Rightarrow> publications_tables \<Rightarrow> error + publications_tables" where
  "publication_step publication t =
     bind_err (p_info publication) (\<lambda>info0.
       let publication_tags = fst (pop info0 ''tags'');
           info1 = snd (pop info0 ''tags'');
           publication_editors = fst (pop info1 ''editors'');
           info2 = snd (pop info1 ''editors'')
       in bind_err (p_articles publication) (\<lambda>ids.
          bind_err (getitem info2 ''description'') (\<lambda>description.
          bind_err (str_lower description) (\<lambda>lowered.
          bind_err (iter_tags publication_tags) (\<lambda>tags.
          bind_err (score_words (findall_words lowered) tags) (\<lambda>best.
            let publication_articles = PList (map PStr ids);
                publication_info = setitem info2 ''most_relevant_tag'' (PStr best)
            in bind_err (add_relation publication_info ''publication_id'' ''tag''
                           publication_tags (publication_tags_df t)) (\<lambda>tags_df.
               bind_err (add_relation publication_info ''publication_id'' ''editor''
                           publication_editors (publication_editors_df t)) (\<lambda>editors_df.
               bind_err (add_relation publication_info ''publication_id'' ''article''
                           publication_articles (publication_articles_df t)) (\<lambda>articles_df.
               Inr (t\<lparr>publication_info_df := publication_info_df t @ [publication_info],
                      publication_tags_df := tags_df,
                      publication_editors_df := editors_df,
                      publication_articles_df := articles_df\<rparr>))))))))))"

definition publications_load_list :: "publications_tables \<Rightarrow> (string \<times> dataframe) list" where
  "publications_load_list t =
     [(''publication_info_table'', publication_info_df t),
      (''publication_tags_table'', publication_tags_df t),
      (''publication_editors_table'', publication_editors_df t),
      (''publication_articles_table'', publication_articles_df t)]"

definition fetch_publications_info :: "env \<Rightarrow> string \<Rightarrow> config \<Rightarrow> bool \<Rightarrow> world \<Rightarrow> (error + publications_tables) \<times> world" where
  "fetch_publications_info E topic_slug google_cloud_config load_to_bq w =
     (case medium_search_publications E topic_slug of
        Inl e \<Rightarrow> (Inl e, w)
      | Inr publications \<Rightarrow>
          (case for_each publication_step publications no_publications_tables of
             Inl e \<Rightarrow> (Inl e, w)
           | Inr t \<Rightarrow> finish E google_cloud_config load_to_bq (publications_load_list t) t w))"

section \<open>\<^verbatim>\<open>fetch_top_feeds\<close>\<close>

text \<open>
  \<^verbatim>\<open>today_date.strftime('%Y-%m-%d')\<close>: the year in decimal (four digits from the
  year 1000 on), month and day in two digits.
\<close>

definition digit :: "nat \<Rightarrow> char" where
  "digit n = char_of (48 + n)"

fun decimal :: "nat \<Rightarrow> string" where
  "decimal n = (if n < 10 then [digit n] else decimal (n div 10) @ [digit (n mod 10)])"

declare decimal.simps [simp del]

definition two_digits :: "nat \<Rightarrow> string" where
  "two_digits n = (if n < 10 then CHR ''0'' # decimal n else decimal n)"

definition strftime :: "date \<Rightarrow> string" where
  "strftime d = decimal (year d) @ ''-'' @ two_digits (month d) @ ''-'' @ two_digits (day d)"

text \<open>The body of the loop over the feed modes (lines 524-535).\<close>

definition feed_step :: "env \<Rightarrow> string \<Rightarrow> pyval \<Rightarrow> date \<Rightarrow> string \<Rightarrow> dataframe \<Rightarrow> error + dataframe" where
  "feed_step E topic_slug count today_date feed top_feeds_df =
     bind_err (medium_topfeeds_ids E topic_slug count feed) (\<lambda>ids.
       Inr (top_feeds_df @
            map (\<lambda>y. [(''feed_mode'', PStr feed),
                      (''captured_on_date'', PStr (strftime today_date)),
                      (''article_id'', y)]) (explode_cell ids)))"

definition fetch_top_feeds :: "env \<Rightarrow> string \<Rightarrow> string list \<Rightarrow> pyval \<Rightarrow> config \<Rightarrow> bool \<Rightarrow> world \<Rightarrow> (error + dataframe) \<times> world" where
  "fetch_top_feeds E topic_slug feed_mode count google_cloud_config load_to_bq w =
     (let today_date = datetime_now E 0
      in case for_each (feed_step E topic_slug count today_date) feed_mode [] of
           Inl e \<Rightarrow> (Inl e, w)
         | Inr top_feeds_df \<Rightarrow>
             finish E google_cloud_config load_to_bq
               [(''top_feeds_table'', top_feeds_df)] top_feeds_df w)"

section \<open>Reference notions used in the statements\<close>

text \<open>
  The keys of a dictionary that was filled by assigning to the keys \<open>xs\<close> in turn,
  starting from the keys \<open>ks\<close>: each key stays where it was first inserted.
\<close>

definition insert_order :: "'a list \<Rightarrow> 'a list \<Rightarrow> 'a list" where
  "insert_order ks xs = fold (\<lambda>x ks. if x \<in> set ks then ks else ks @ [x]) xs ks"

text \<open>A date of the calendar, from the year 1000 on.\<close>

definition calendar_date :: "date \<Rightarrow> bool" where
  "calendar_date d = (1000 \<le> year d \<and> year d \<le> 9999 \<and> 1 \<le> month d \<and> month d \<le> 12
                      \<and> 1 \<le> day d \<and> day d \<le> 31)"

section \<open>What one user contributes (reference for the isolation of the four steps)\<close>

text \<open>
  Each of the following reads one attribute of the user only: the rows the attribute
  yields for its table, and the failure it ends in, if any.
\<close>

definition user_info_failure :: "user \<Rightarrow> error option" where
  "user_info_failure u =
     (case u_info u of
        Inl e \<Rightarrow> Some e
      | Inr i \<Rightarrow>
          (if truthy (fst (pop i ''top_writer_in''))
           then (case getitem (snd (pop i ''top_writer_in'')) ''id'' of
                   Inl e \<Rightarrow> Some e | Inr uid \<Rightarrow> None)
           else None))"

definition user_info_rows :: "user \<Rightarrow> dataframe" where
  "user_info_rows u =
     (case u_info u of
        Inl e \<Rightarrow> []
      | Inr i \<Rightarrow> (if user_info_failure u = None then [snd (pop i ''top_writer_in'')] else []))"

definition user_keyword_rows :: "user \<Rightarrow> dataframe" where
  "user_keyword_rows u =
     (case u_info u of
        Inl e \<Rightarrow> []
      | Inr i \<Rightarrow>
          (if truthy (fst (pop i ''top_writer_in''))
           then (case getitem (snd (pop i ''top_writer_in'')) ''id'' of
                   Inl e \<Rightarrow> []
                 | Inr uid \<Rightarrow> exploded_frame ''user_id'' uid ''keyword''
                                (fst (pop i ''top_writer_in'')))
           else []))"

definition user_follower_rows :: "user \<Rightarrow> dataframe" where
  "user_follower_rows u =
     (case u_followers_ids u of
        Inl e \<Rightarrow> []
      | Inr v \<Rightarrow> exploded_frame ''user_id'' (PStr (u_id u)) ''follower_id'' v)"

definition user_following_rows :: "user \<Rightarrow> dataframe" where
  "user_following_rows u =
     (case u_following_ids u of
        Inl e \<Rightarrow> []
      | Inr v \<Rightarrow> exploded_frame ''user_id'' (PStr (u_id u)) ''following_id'' v)"

definition user_article_rows :: "user \<Rightarrow> dataframe" where
  "user_article_rows u =
     (case u_article_ids u of
        Inl e \<Rightarrow> []
      | Inr v \<Rightarrow> exploded_frame ''user_id'' (PStr (u_id u)) ''article_id'' v)"

definition failure_of :: "error + 'a \<Rightarrow> error option" where
  "failure_of r = (case r of Inl e \<Rightarrow> Some e | Inr v \<Rightarrow> None)"

definition logged :: "string \<Rightarrow> string \<Rightarrow> string \<Rightarrow> error option \<Rightarrow> string list" where
  "logged before uid after r =
     (case r of None \<Rightarrow> [] | Some e \<Rightarrow> [before @ uid @ after @ py_str e])"

definition user_log :: "user \<Rightarrow> string list" where
  "user_log u =
     logged ''Getting user info failed for user_id: '' (u_id u) ''. Error: ''
       (user_info_failure u)
     @ logged ''Getting followers users failed for user_id: '' (u_id u) ''. Error: ''
         (failure_of (u_followers_ids u))
     @ logged ''Getting following users failed for user_id: '' (u_id u) ''. Error: ''
         (failure_of (u_following_ids u))
     @ logged ''Getting articles for user_id: '' (u_id u) '' failed. Error: ''
         (failure_of (u_article_ids u))"

definition failed_steps :: "user \<Rightarrow> nat" where
  "failed_steps u =
     length (filter (\<lambda>r. r \<noteq> None)
       [user_info_failure u, failure_of (u_followers_ids u),
        failure_of (u_following_ids u), failure_of (u_article_ids u)])"

section \<open>What a load block does to the world (reference for the independence of loads)\<close>

definition attempted :: "config \<Rightarrow> (string \<times> dataframe) list \<Rightarrow> (string \<times> dataframe) list" where
  "attempted cfg tabs = map (\<lambda>kd. (destination cfg (fst kd), snd kd)) tabs"

definition accepted :: "env \<Rightarrow> config \<Rightarrow> credentials \<Rightarrow> (string \<times> dataframe) list \<Rightarrow> (string \<times> dataframe) list" where
  "accepted E cfg cred tabs =
     attempted cfg (filter (\<lambda>kd. to_gbq E (snd kd) (destination cfg (fst kd)) cred = None) tabs)"

definition load_failures :: "env \<Rightarrow> config \<Rightarrow> credentials \<Rightarrow> (string \<times> dataframe) list \<Rightarrow> string list" where
  "load_failures E cfg cred tabs =
     concat (map (\<lambda>kd. case to_gbq E (snd kd) (destination cfg (fst kd)) cred of
                          None \<Rightarrow> []
                        | Some e \<Rightarrow> [''Uploading records to table: '' @ fmt (cfg (fst kd))
                                      @ '' failed. Error: '' @ py_str e]) tabs)"

text \<open>
  Every table of \<open>tabs\<close> was passed to \<^verbatim>\<open>to_gbq\<close>, in order; the warehouse holds those
  it accepted; the log names the table of each one it refused.
\<close>

definition loaded_independently :: "env \<Rightarrow> config \<Rightarrow> credentials \<Rightarrow> (string \<times> dataframe) list \<Rightarrow> world \<Rightarrow> world \<Rightarrow> bool" where
  "loaded_independently E cfg cred tabs w w' =
     (gbq_calls w' = gbq_calls w @ attempted cfg tabs
      \<and> warehouse w' = warehouse w @ accepted E cfg cred tabs
      \<and> log w' = log w @ load_failures E cfg cred tabs)"

text \<open>
  How the result of an operation \<open>op\<close> depends on the flag: what it returns with the flag
  off, it returns with the flag on unless the credentials cannot be loaded, and with the
  flag off nothing is passed to \<^verbatim>\<open>to_gbq\<close>.
\<close>

definition flag_only_loads :: "env \<Rightarrow> config \<Rightarrow> world \<Rightarrow> (bool \<Rightarrow> (error + 'a) \<times> world) \<Rightarrow> bool" where
  "flag_only_loads E cfg w op =
     (case fst (op False) of
        Inl e \<Rightarrow> fst (op True) = Inl e
      | Inr t \<Rightarrow>
          gbq_calls (snd (op False)) = gbq_calls w
          \<and> (case from_service_account_file E (cfg ''credentials_path'') of
               Inl e \<Rightarrow> fst (op True) = Inl e
             | Inr cred \<Rightarrow> fst (op True) = Inr t))"

section \<open>The first failing read of an article or a publication (reference)\<close>

text \<open>
  The failures that processing one entity can meet, in the order in which the source
  reads: the requests to the client, the attributes of the object, the \<^verbatim>\<open>KeyError\<close>
  of \<^verbatim>\<open>info['id']\<close> when a relation is to be written and the key is missing, the
  responses, and for a publication the description, the tags and the empty counter.
  \<open>None\<close>: nothing fails.
\<close>

fun first_error :: "error option list \<Rightarrow> error option" where
  "first_error [] = None"
| "first_error (None # rs) = first_error rs"
| "first_error (Some e # rs) = Some e"

definition missing_id :: "dict \<Rightarrow> pyval list \<Rightarrow> error option" where
  "missing_id info vs =
     (if list_ex truthy vs \<and> map_of info ''id'' = None then Some (KeyError ''id'') else None)"

definition comment_failure :: "comment \<Rightarrow> error option" where
  "comment_failure c =
     (case c_info c of
        Inl e \<Rightarrow> Some e
      | Inr i \<Rightarrow> missing_id i [fst (pop i ''tags''), fst (pop i ''topics'')])"

definition article_object_failure :: "article \<Rightarrow> error option" where
  "article_object_failure a = first_error
     [failure_of (a_info a), failure_of (a_fans_ids a),
      failure_of (a_related_articles_ids a), failure_of (a_is_self_published a),
      failure_of (a_content a), failure_of (a_markdown a),
      (case (a_info a, a_fans_ids a, a_related_articles_ids a) of
         (Inr i, Inr fans, Inr related) \<Rightarrow>
           missing_id i [fst (pop i ''tags''), fst (pop i ''topics''), fans, related]
       | _ \<Rightarrow> None),
      failure_of (a_responses a),
      (case a_responses a of Inl e \<Rightarrow> None | Inr cs \<Rightarrow> first_error (map comment_failure cs))]"

definition article_failure :: "env \<Rightarrow> row \<Rightarrow> error option" where
  "article_failure E r =
     (case map_of r ''article_id'' of
        None \<Rightarrow> Some (KeyError ''article_id'')
      | Some aid \<Rightarrow>
          (case medium_article E aid of
             Inl e \<Rightarrow> Some e
           | Inr a \<Rightarrow> article_object_failure a))"

definition publication_failure :: "publication \<Rightarrow> error option" where
  "publication_failure p =
     (case p_info p of
        Inl e \<Rightarrow> Some e
      | Inr i \<Rightarrow>
     (case p_articles p of
        Inl e \<Rightarrow> Some e
      | Inr ids \<Rightarrow>
     (case map_of i ''description'' of
        None \<Rightarrow> Some (KeyError ''description'')
      | Some d \<Rightarrow>
     (case str_lower d of
        Inl e \<Rightarrow> Some e
      | Inr lowered \<Rightarrow>
     (case iter_tags (fst (pop i ''tags'')) of
        Inl e \<Rightarrow> Some e
      | Inr [] \<Rightarrow> Some (IndexError ''list index out of range'')
      | Inr (x # xs) \<Rightarrow>
          (if map_of i ''id'' = None then Some (KeyError ''id'') else None))))))"

section \<open>Example inputs\<close>

definition world0 :: world where
  "world0 = \<lparr>log = [], gbq_calls = [], warehouse = []\<rparr>"

text \<open>
  A client that finds nothing, a clock, a credentials loader that accepts any configured
  path, and a warehouse that accepts every table.
\<close>

definition mock_env :: env where
  "mock_env = \<lparr>
     medium_article = (\<lambda>aid. Inl (ExternalError ''article not found'')),
     medium_search_publications = (\<lambda>q. Inr []),
     medium_topfeeds_ids = (\<lambda>tag count mode. Inr (PList [])),
     datetime_now = (\<lambda>n. \<lparr>year = 2024, month = 3, day = 7\<rparr>),
     from_service_account_file =
       (\<lambda>path. case path of None \<Rightarrow> Inl (TypeError ''expected str, not NoneType'')
                | Some p \<Rightarrow> Inr ''service-account''),
     to_gbq = (\<lambda>df dest cred. None)\<rparr>"

definition mock_config :: config where
  "mock_config = map_of
     [(''project'', ''proj''), (''dataset_id'', ''medium''), (''credentials_path'', ''key.json''),
      (''user_info_table'', ''users''), (''users_top_writer_in_table'', ''keywords''),
      (''user_followers_table'', ''followers''), (''user_followings_table'', ''followings''),
      (''users_articles_table'', ''user_articles'')]"

text \<open>Two top writers: the first has three articles, the second none.\<close>

definition writer_one :: user where
  "writer_one = \<lparr>
     u_id = ''w1'',
     u_info = Inr [(''id'', PStr ''w1''), (''fullname'', PStr ''Ann''),
                   (''top_writer_in'', PList [])],
     u_followers_ids = Inr (PList [PStr ''f1'']),
     u_following_ids = Inr (PList [PStr ''g1'']),
     u_article_ids = Inr (PList [PStr ''a1'', PStr ''a2'', PStr ''a3''])\<rparr>"

definition writer_two :: user where
  "writer_two = \<lparr>
     u_id = ''w2'',
     u_info = Inr [(''id'', PStr ''w2''), (''fullname'', PStr ''Bob''),
                   (''top_writer_in'', PList [PStr ''data''])],
     u_followers_ids = Inr (PList [PStr ''f2'']),
     u_following_ids = Inr (PList [PStr ''g2'']),
     u_article_ids = Inr (PList [])\<rparr>"

text \<open>A writer whose follower request fails.\<close>

definition writer_three :: user where
  "writer_three = \<lparr>
     u_id = ''w3'',
     u_info = Inr [(''id'', PStr ''w3'')],
     u_followers_ids = Inl (ExternalError ''timeout''),
     u_following_ids = Inr (PList [PStr ''g3'']),
     u_article_ids = Inr (PList [PStr ''a9''])\<rparr>"

text \<open>A warehouse that refuses the followers table, and a credentials file that is rejected.\<close>

definition flaky_env :: env where
  "flaky_env = mock_env\<lparr>to_gbq :=
     (\<lambda>df dest cred. if dest = ''proj.medium.followers''
                      then Some (ExternalError ''quota exceeded'') else None)\<rparr>"

definition locked_env :: env where
  "locked_env = mock_env\<lparr>from_service_account_file :=
     (\<lambda>path. Inl (ExternalError ''invalid credentials''))\<rparr>"

text \<open>A warehouse that refuses the destination built from an empty configuration.\<close>

definition strict_env :: env where
  "strict_env = mock_env\<lparr>to_gbq :=
     (\<lambda>df dest cred. if dest = ''None.None.None''
                      then Some (ExternalError ''invalid destination'') else None)\<rparr>"

text \<open>A configuration that names the credentials file and nothing else.\<close>

definition bare_config :: config where
  "bare_config = map_of [(''credentials_path'', ''key.json'')]"

text \<open>
  A client that knows one article, \<open>a2\<close>, and fails on every other id; and the same
  client with a warehouse that refuses an empty table.
\<close>

definition article_two :: article where
  "article_two = \<lparr>
     a_info = Inr [(''id'', PStr ''a2''), (''title'', PStr ''On data''),
                   (''tags'', PList [PStr ''data'']), (''topics'', PList [])],
     a_fans_ids = Inr (PList [PStr ''f1'']),
     a_related_articles_ids = Inr (PList []),
     a_is_self_published = Inr (PBool True),
     a_content = Inr (PStr ''text''),
     a_markdown = Inr (PStr ''# text''),
     a_responses = Inr []\<rparr>"

definition one_article_env :: env where
  "one_article_env = mock_env\<lparr>medium_article :=
     (\<lambda>aid. if aid = PStr ''a2'' then Inr article_two
             else Inl (ExternalError ''article not found''))\<rparr>"

definition picky_env :: env where
  "picky_env = one_article_env\<lparr>to_gbq :=
     (\<lambda>df dest cred. if df = [] then Some (ExternalError ''empty table'') else None)\<rparr>"

text \<open>
  Three publications: a healthy one, one whose info request fails, one without tags; and
  clients whose search returns them.
\<close>

definition publication_one :: publication where
  "publication_one = \<lparr>
     p_info = Inr [(''id'', PStr ''p1''), (''description'', PStr ''Data science daily''),
                   (''tags'', PList [PStr ''ai'', PStr ''data-science'']),
                   (''editors'', PList [PStr ''e1''])],
     p_articles = Inr [''a1'', ''a2'']\<rparr>"

definition publication_down :: publication where
  "publication_down = \<lparr>
     p_info = Inl (ExternalError ''timeout''),
     p_articles = Inr []\<rparr>"

definition publication_untagged :: publication where
  "publication_untagged = \<lparr>
     p_info = Inr [(''id'', PStr ''p3''), (''description'', PStr ''Notes''),
                   (''tags'', PList []), (''editors'', PList [])],
     p_articles = Inr []\<rparr>"

definition search_env :: "publication list \<Rightarrow> env" where
  "search_env ps = mock_env\<lparr>medium_search_publications := (\<lambda>q. Inr ps)\<rparr>"

text \<open>
  A client with two feeds, and a clock that shows the next day once a feed request has
  been made.
\<close>

definition feeds_env :: env where
  "feeds_env = mock_env\<lparr>
     medium_topfeeds_ids :=
       (\<lambda>tag count mode. if mode = ''hot'' then Inr (PList [PStr ''a1'', PStr ''a2''])
                          else Inr (PList [PStr ''a3''])),
     datetime_now :=
       (\<lambda>n. if n = 0 then \<lparr>year = 2024, month = 3, day = 7\<rparr>
             else \<lparr>year = 2024, month = 3, day = 8\<rparr>)\<rparr>"

text \<open>
  A client that knows three articles: \<open>a2\<close> is healthy, the fans of \<open>a3\<close> cannot be
  read, and the info of the one response to \<open>a4\<close> cannot be read.
\<close>

definition article_row :: "string \<Rightarrow> row" where
  "article_row aid = [(''user_id'', PStr ''w1''), (''article_id'', PStr aid)]"

definition article_three :: article where
  "article_three = article_two\<lparr>a_fans_ids := Inl (ExternalError ''fans unavailable'')\<rparr>"

definition article_four :: article where
  "article_four = article_two\<lparr>a_responses :=
     Inr [\<lparr>c_info = Inl (ExternalError ''response unavailable'')\<rparr>]\<rparr>"

definition library_env :: env where
  "library_env = mock_env\<lparr>medium_article :=
     (\<lambda>aid. if aid = PStr ''a2'' then Inr article_two
             else if aid = PStr ''a3'' then Inr article_three
             else if aid = PStr ''a4'' then Inr article_four
             else Inl (ExternalError ''article not found''))\<rparr>"

text \<open>
  A configuration that names every table, a warehouse that refuses one destination, and
  a credentials loader that rejects every file.
\<close>

definition full_config :: config where
  "full_config = map_of
     [(''project'', ''proj''), (''dataset_id'', ''medium''), (''credentials_path'', ''key.json''),
      (''user_info_table'', ''users''), (''users_top_writer_in_table'', ''keywords''),
      (''user_followers_table'', ''followers''), (''user_followings_table'', ''followings''),
      (''users_articles_table'', ''user_articles''),
      (''articles_info_table'', ''articles''), (''article_tags_table'', ''article_tags''),
      (''article_topics_table'', ''article_topics''),
      (''article_fans_id_table'', ''article_fans''),
      (''article_related_articles_table'', ''article_related''),
      (''articles_comments_info_table'', ''comments''),
      (''article_comments_tag_info_table'', ''comment_tags''),
      (''article_comments_topic_info_table'', ''comment_topics''),
      (''publication_info_table'', ''publications''),
      (''publication_tags_table'', ''publication_tags''),
      (''publication_editors_table'', ''publication_editors''),
      (''publication_articles_table'', ''publication_articles''),
      (''top_feeds_table'', ''top_feeds'')]"

definition refusing :: "string \<Rightarrow> env \<Rightarrow> env" where
  "refusing dest E = E\<lparr>to_gbq :=
     (\<lambda>df d cred. if d = dest then Some (ExternalError ''quota exceeded'') else None)\<rparr>"

definition locked :: "env \<Rightarrow> env" where
  "locked E = E\<lparr>from_service_account_file :=
     (\<lambda>path. Inl (ExternalError ''invalid credentials''))\<rparr>"

section \<open>The counter of the relevance scorer\<close>

lemma setitem_keyed:
  "setitem (map (\<lambda>t. (t, f t)) ks) k (f k) = map (\<lambda>t. (t, f t)) (if k \<in> set ks then ks else ks @ [k])"
  by (induction ks) auto

lemma fold_setitem_keyed:
  "fold (\<lambda>t c. setitem c t (f t)) xs (map (\<lambda>t. (t, f t)) ks) = map (\<lambda>t. (t, f t)) (insert_order ks xs)"
  unfolding insert_order_def
proof (induction xs arbitrary: ks)
  case Nil show ?case by simp
next
  case (Cons x xs)
  show ?case using Cons.IH [of "if x \<in> set ks then ks else ks @ [x]"]
    by (simp only: fold_simps setitem_keyed)
qed

lemma hashtag_relevance_keyed:
  "hashtag_relevance W tags = map (\<lambda>t. (t, relevance W t)) (insert_order [] tags)"
  unfolding hashtag_relevance_def using fold_setitem_keyed [of "relevance W" tags "[]"] by simp

lemma insert_order_set: "set (insert_order ks xs) = set ks \<union> set xs"
  unfolding insert_order_def by (induction xs arbitrary: ks) auto

lemma insert_order_extends: "\<exists>zs. insert_order ks xs = ks @ zs"
  unfolding insert_order_def by (induction xs arbitrary: ks) (auto, metis append.assoc)

lemma insert_order_first:
  assumes "t \<notin> set ks" "t \<notin> set pre"
  shows "\<exists>zs. insert_order ks (pre @ t # post) = insert_order ks pre @ t # zs"
proof -
  have n: "t \<notin> set (insert_order ks pre)" using assms by (simp add: insert_order_set)
  have "insert_order ks (pre @ t # post) = insert_order (insert_order ks pre @ [t]) post"
    using n by (simp add: insert_order_def)
  moreover obtain zs where "insert_order (insert_order ks pre @ [t]) post = (insert_order ks pre @ [t]) @ zs"
    using insert_order_extends by blast
  ultimately show ?thesis by simp
qed

lemma max_item_first:
  "(max_item b xs = b \<and> (\<forall>x\<in>set xs. snd x \<le> snd b)) \<or>
   (\<exists>pre post. xs = pre @ max_item b xs # post \<and> snd b < snd (max_item b xs)
       \<and> (\<forall>x\<in>set pre. snd x < snd (max_item b xs)) \<and> (\<forall>x\<in>set post. snd x \<le> snd (max_item b xs)))"
proof (induction xs arbitrary: b)
  case Nil show ?case by simp
next
  case (Cons x xs)
  show ?case
  proof (cases "snd b < snd x")
    case True
    from Cons.IH [of x] show ?thesis
    proof
      assume a: "max_item x xs = x \<and> (\<forall>y\<in>set xs. snd y \<le> snd x)"
      have "x # xs = [] @ max_item b (x # xs) # xs" using True a by simp
      then show ?thesis using True a by (intro disjI2 exI[of _ "[]"] exI[of _ xs]) simp
    next
      assume "\<exists>pre post. xs = pre @ max_item x xs # post \<and> snd x < snd (max_item x xs)
       \<and> (\<forall>y\<in>set pre. snd y < snd (max_item x xs)) \<and> (\<forall>y\<in>set post. snd y \<le> snd (max_item x xs))"
      then obtain pre post where p: "xs = pre @ max_item x xs # post" "snd x < snd (max_item x xs)"
        "\<forall>y\<in>set pre. snd y < snd (max_item x xs)" "\<forall>y\<in>set post. snd y \<le> snd (max_item x xs)" by blast
      have "x # xs = (x # pre) @ max_item b (x # xs) # post" using True p(1) by simp
      then show ?thesis using True p by (intro disjI2 exI[of _ "x # pre"] exI[of _ post]) auto
    qed
  next
    case False
    from Cons.IH [of b] show ?thesis
    proof
      assume a: "max_item b xs = b \<and> (\<forall>y\<in>set xs. snd y \<le> snd b)"
      then show ?thesis using False by auto
    next
      assume "\<exists>pre post. xs = pre @ max_item b xs # post \<and> snd b < snd (max_item b xs)
       \<and> (\<forall>y\<in>set pre. snd y < snd (max_item b xs)) \<and> (\<forall>y\<in>set post. snd y \<le> snd (max_item b xs))"
      then obtain pre post where p: "xs = pre @ max_item b xs # post" "snd b < snd (max_item b xs)"
        "\<forall>y\<in>set pre. snd y < snd (max_item b xs)" "\<forall>y\<in>set post. snd y \<le> snd (max_item b xs)" by blast
      have "x # xs = (x # pre) @ max_item b (x # xs) # post" using False p(1) by simp
      then show ?thesis using False p by (intro disjI2 exI[of _ "x # pre"] exI[of _ post]) auto
    qed
  qed
qed

lemma max_item_split:
  "\<exists>pre post. b # xs = pre @ max_item b xs # post
      \<and> (\<forall>x\<in>set pre. snd x < snd (max_item b xs)) \<and> (\<forall>x\<in>set post. snd x \<le> snd (max_item b xs))"
proof -
  from max_item_first [of b xs] show ?thesis
  proof
    assume a: "max_item b xs = b \<and> (\<forall>x\<in>set xs. snd x \<le> snd b)"
    then show ?thesis by (intro exI[of _ "[]"] exI[of _ xs]) simp
  next
    assume "\<exists>pre post. xs = pre @ max_item b xs # post \<and> snd b < snd (max_item b xs)
       \<and> (\<forall>x\<in>set pre. snd x < snd (max_item b xs)) \<and> (\<forall>x\<in>set post. snd x \<le> snd (max_item b xs))"
    then obtain pre post where p: "xs = pre @ max_item b xs # post" "snd b < snd (max_item b xs)"
        "\<forall>y\<in>set pre. snd y < snd (max_item b xs)" "\<forall>y\<in>set post. snd y \<le> snd (max_item b xs)" by blast
    have "b # xs = (b # pre) @ max_item b xs # post" using p(1) by simp
    then show ?thesis using p by (intro exI[of _ "b # pre"] exI[of _ post]) auto
  qed
qed



lemma first_split_unique:
  "xs @ t # ys = xs' @ t # ys' \<Longrightarrow> t \<notin> set xs' \<Longrightarrow> t \<notin> set xs \<Longrightarrow> xs = xs'"
proof (induction xs arbitrary: xs')
  case Nil then show ?case by (cases xs') auto
next
  case (Cons a xs) then show ?case by (cases xs') auto
qed

lemma score_words_first_max:
  assumes "tags \<noteq> []"
  shows "\<exists>t pre post. score_words W tags = Inr t \<and> tags = pre @ t # post
           \<and> (\<forall>x\<in>set pre. relevance W x < relevance W t)
           \<and> (\<forall>x\<in>set post. relevance W x \<le> relevance W t)"
proof -
  let ?f = "relevance W"
  let ?g = "\<lambda>t. (t, ?f t)"
  let ?K = "insert_order [] tags"
  have "set ?K = set tags" by (simp add: insert_order_set)
  with assms have "?K \<noteq> []" by auto
  then obtain k ks where K: "?K = k # ks" by (cases ?K) auto
  define m where "m = max_item (?g k) (map ?g ks)"
  have sw: "score_words W tags = Inr (fst m)"
    by (simp add: score_words_def most_common_1_def hashtag_relevance_keyed K m_def)
  obtain pre post where sp: "?g k # map ?g ks = pre @ m # post"
      "\<forall>x\<in>set pre. snd x < snd m" "\<forall>x\<in>set post. snd x \<le> snd m"
    using max_item_split [of "?g k" "map ?g ks"] unfolding m_def by blast
  have mapK: "map ?g ?K = pre @ m # post" using sp(1) K by simp
  then obtain preK t postK where
    pk: "?K = preK @ t # postK" "pre = map ?g preK" "m = ?g t" "post = map ?g postK"
    by (auto simp: map_eq_append_conv map_eq_Cons_conv)
  have lt: "\<forall>x\<in>set preK. ?f x < ?f t" using sp(2) pk by auto
  have le: "\<forall>x\<in>set tags. ?f x \<le> ?f t"
  proof
    fix x assume "x \<in> set tags"
    then have "x \<in> set ?K" by (simp add: insert_order_set)
    then have "x \<in> set preK \<or> x = t \<or> x \<in> set postK" using pk(1) by auto
    then show "?f x \<le> ?f t" using lt sp(3) pk by (auto simp: less_imp_le)
  qed
  have "t \<in> set tags" using pk(1) \<open>set ?K = set tags\<close> by (metis in_set_conv_decomp)
  then obtain p q where pq: "tags = p @ t # q" "t \<notin> set p" by (meson split_list_first)
  obtain zs where z: "?K = insert_order [] p @ t # zs"
    using insert_order_first [of t "[]" p q] pq by auto
  have n1: "t \<notin> set (insert_order [] p)" using pq(2) by (simp add: insert_order_set)
  have n2: "t \<notin> set preK" using lt by auto
  have "preK @ t # postK = insert_order [] p @ t # zs" using z pk(1) by simp
  then have "preK = insert_order [] p" using n1 n2 by (rule first_split_unique)
  then have "set p = set preK" by (simp add: insert_order_set)
  then have "\<forall>x\<in>set p. ?f x < ?f t" using lt by simp
  moreover have "\<forall>x\<in>set q. ?f x \<le> ?f t" using le pq(1) by simp
  ultimately show ?thesis using sw pk(3) pq(1) by auto
qed

lemma of_char_lower_char: "(of_char (lower_char c) :: nat) < 65 \<or> 90 < (of_char (lower_char c) :: nat)"
proof -
  have "(of_char c :: nat) < 256" by simp
  then show ?thesis
    by (auto simp: lower_char_def Let_def of_char_of [where ?'a = nat])
qed

lemma lower_char_idem: "lower_char (lower_char c) = lower_char c"
  using of_char_lower_char [of c] by (subst lower_char_def) (auto simp: Let_def)

lemma findall_from_chars:
  "w \<in> set (findall_from cur s) \<Longrightarrow> set w \<subseteq> set cur \<union> set s"
  by (induction cur s rule: findall_from.induct) (auto split: if_splits)

lemma lowered_fixed: "set w \<subseteq> set (lower s) \<Longrightarrow> lower w = w"
proof -
  assume a: "set w \<subseteq> set (lower s)"
  have "\<forall>c\<in>set w. lower_char c = c"
  proof
    fix c assume "c \<in> set w"
    then obtain c' where "c = lower_char c'" using a by (auto simp: lower_def)
    then show "lower_char c = c" by (simp add: lower_char_idem)
  qed
  then show ?thesis by (simp add: lower_def map_idI)
qed

lemma words_lowered: "w \<in> set (findall_words (lower s)) \<Longrightarrow> lower w = w"
  using findall_from_chars [of w "[]" "lower s"] lowered_fixed [of w s]
  by (simp add: findall_words_def)

lemma relevance_lowered:
  "relevance (findall_words (lower d)) t
     = length (filter (\<lambda>w. sublist w (lower t)) (findall_words (lower d)))"
  unfolding relevance_def
  by (rule arg_cong [where f = length], rule filter_cong) (simp_all add: words_lowered)

lemma hashtag_relevance_lookup:
  "t \<in> set tags \<Longrightarrow> map_of (hashtag_relevance W tags) t = Some (relevance W t)"
proof -
  assume "t \<in> set tags"
  then have "t \<in> set (insert_order [] tags)" by (simp add: insert_order_set)
  moreover have "\<And>ks. t \<in> set ks \<Longrightarrow> map_of (map (\<lambda>t. (t, relevance W t)) ks) t = Some (relevance W t)"
    subgoal for ks by (induction ks) auto
    done
  ultimately show ?thesis unfolding hashtag_relevance_keyed by blast
qed

subsection \<open>Which tag is returned\<close>

text \<open>
  C2 (as amended). For every description and non-empty tag sequence, the score the
  counter holds for each tag is the number of description tokens (the maximal runs of
  word characters of the lower-cased description) that occur in the lower-cased tag as
  a substring, and the tag returned is a tag of the sequence with the highest such
  score. For the description "data science and machine learning" and the tags
  "ai", "data", "sports" the result is "data".
\<close>

theorem relevance_counts_tokens_within_tag:
  assumes "tags \<noteq> []"
  shows "(\<forall>t\<in>set tags.
            map_of (hashtag_relevance (findall_words (lower description)) tags) t
              = Some (length (filter (\<lambda>w. sublist w (lower t))
                                     (findall_words (lower description)))))
       \<and> (\<exists>best. most_relevant_tag description tags = Inr best \<and> best \<in> set tags
             \<and> (\<forall>t\<in>set tags.
                   length (filter (\<lambda>w. sublist w (lower t)) (findall_words (lower description)))
                   \<le> length (filter (\<lambda>w. sublist w (lower best))
                                     (findall_words (lower description)))))
       \<and> most_relevant_tag ''data science and machine learning'' [''ai'', ''data'', ''sports'']
           = Inr ''data''"
proof (intro conjI)
  show "\<forall>t\<in>set tags.
          map_of (hashtag_relevance (findall_words (lower description)) tags) t
            = Some (length (filter (\<lambda>w. sublist w (lower t))
                                   (findall_words (lower description))))"
    by (simp add: hashtag_relevance_lookup relevance_lowered)
next
  obtain t pre post where r: "score_words (findall_words (lower description)) tags = Inr t"
      "tags = pre @ t # post"
      "\<forall>x\<in>set pre. relevance (findall_words (lower description)) x
                      < relevance (findall_words (lower description)) t"
      "\<forall>x\<in>set post. relevance (findall_words (lower description)) x
                      \<le> relevance (findall_words (lower description)) t"
    using score_words_first_max [OF assms] by blast
  have "\<forall>x\<in>set tags. relevance (findall_words (lower description)) x
                      \<le> relevance (findall_words (lower description)) t"
    using r(2,3,4) by (auto simp: less_imp_le)
  then show "\<exists>best. most_relevant_tag description tags = Inr best \<and> best \<in> set tags
             \<and> (\<forall>t\<in>set tags.
                   length (filter (\<lambda>w. sublist w (lower t)) (findall_words (lower description)))
                   \<le> length (filter (\<lambda>w. sublist w (lower best))
                                     (findall_words (lower description))))"
    using r(1,2) by (auto simp: most_relevant_tag_def relevance_lowered)
next
  show "most_relevant_tag ''data science and machine learning'' [''ai'', ''data'', ''sports'']
          = Inr ''data''"
    by code_simp
qed

theorem relevance_counts_tokens_within_tag_witness:
  "[''big-data'', ''ml''] \<noteq> ([] :: string list)
   \<and> map_of (hashtag_relevance (findall_words (lower ''Data and ML'')) [''big-data'', ''ml''])
        ''big-data'' = Some 1
   \<and> most_relevant_tag ''Data and ML'' [''big-data'', ''ml''] = Inr ''big-data''"
proof -
  have ne: "[''big-data'', ''ml''] \<noteq> ([] :: string list)" by simp
  have "map_of (hashtag_relevance (findall_words (lower ''Data and ML'')) [''big-data'', ''ml''])
          ''big-data''
        = Some (length (filter (\<lambda>w. sublist w (lower ''big-data''))
                               (findall_words (lower ''Data and ML''))))"
    using relevance_counts_tokens_within_tag [OF ne, of "''Data and ML''"] by simp
  moreover have "length (filter (\<lambda>w. sublist w (lower ''big-data''))
                                (findall_words (lower ''Data and ML''))) = 1"
    by code_simp
  moreover have "most_relevant_tag ''Data and ML'' [''big-data'', ''ml''] = Inr ''big-data''"
    by code_simp
  ultimately show ?thesis using ne by simp
qed

text \<open>
  C2 as the specification states it fails: the description "databases" has one token
  that contains the tag "data", yet the counter scores that tag 0 (the token is not
  inside the tag) and the tag returned is "zzz".
\<close>

theorem relevance_counts_tags_within_tokens_counterexample:
  "most_relevant_tag ''databases'' [''zzz'', ''data''] = Inr ''zzz''
   \<and> map_of (hashtag_relevance (findall_words (lower ''databases'')) [''zzz'', ''data''])
        ''data'' = Some 0
   \<and> spec_relevance (findall_words (lower ''databases'')) ''data'' = 1
   \<and> spec_relevance (findall_words (lower ''databases'')) ''zzz'' = 0"
  by code_simp

text \<open>
  C3 (as amended). The count of a tag being the one the code computes (the number of
  description tokens that occur inside the lower-cased tag), for every description and
  non-empty tag sequence the scorer returns the tag that comes first in the sequence
  among those with the maximum count: every tag before it has a strictly smaller count
  and no tag after it has a greater one. For the description "hello world" and the tags
  "xyz", "abc" the result is "xyz", and for an empty description the first tag of the
  sequence is returned.
\<close>

theorem relevance_tie_break_first_seen:
  assumes "tags \<noteq> []"
  shows "(\<exists>t pre post. most_relevant_tag description tags = Inr t \<and> tags = pre @ t # post
            \<and> (\<forall>x\<in>set pre. relevance (findall_words (lower description)) x
                              < relevance (findall_words (lower description)) t)
            \<and> (\<forall>x\<in>set post. relevance (findall_words (lower description)) x
                              \<le> relevance (findall_words (lower description)) t))
       \<and> most_relevant_tag ''hello world'' [''xyz'', ''abc''] = Inr ''xyz''
       \<and> most_relevant_tag [] tags = Inr (hd tags)"
proof (intro conjI)
  show "\<exists>t pre post. most_relevant_tag description tags = Inr t \<and> tags = pre @ t # post
            \<and> (\<forall>x\<in>set pre. relevance (findall_words (lower description)) x
                              < relevance (findall_words (lower description)) t)
            \<and> (\<forall>x\<in>set post. relevance (findall_words (lower description)) x
                              \<le> relevance (findall_words (lower description)) t)"
    using score_words_first_max [OF assms] by (simp add: most_relevant_tag_def)
next
  show "most_relevant_tag ''hello world'' [''xyz'', ''abc''] = Inr ''xyz''"
    by code_simp
next
  obtain t pre post where r: "score_words [] tags = Inr t" "tags = pre @ t # post"
      "\<forall>x\<in>set pre. relevance [] x < relevance [] t"
    using score_words_first_max [OF assms, of "[]"] by blast
  have "pre = []" using r(3) by (cases pre) (auto simp: relevance_def)
  then show "most_relevant_tag [] tags = Inr (hd tags)"
    using r(1,2) by (simp add: most_relevant_tag_def lower_def findall_words_def)
qed

theorem relevance_tie_break_first_seen_witness:
  "[''zzz'', ''big-data'', ''other'', ''data'', ''big-data''] \<noteq> ([] :: string list)
   \<and> most_relevant_tag ''Data-driven data'' [''zzz'', ''big-data'', ''other'', ''data'', ''big-data'']
       = Inr ''big-data''
   \<and> most_relevant_tag [] [''zzz'', ''big-data'', ''other'', ''data'', ''big-data''] = Inr ''zzz''"
proof -
  have ne: "[''zzz'', ''big-data'', ''other'', ''data'', ''big-data''] \<noteq> ([] :: string list)"
    by simp
  have "most_relevant_tag [] [''zzz'', ''big-data'', ''other'', ''data'', ''big-data'']
          = Inr (hd [''zzz'', ''big-data'', ''other'', ''data'', ''big-data''])"
    using relevance_tie_break_first_seen [OF ne] by blast
  moreover have "most_relevant_tag ''Data-driven data''
                   [''zzz'', ''big-data'', ''other'', ''data'', ''big-data''] = Inr ''big-data''"
    by code_simp
  ultimately show ?thesis by simp
qed

text \<open>
  C3 as the specification states it fails: with the count of the specification (the
  tokens that contain the tag) the tags "data" and "dat" share the maximum, 1, for the
  description "databases", and the first of them is "data"; the scorer returns "zzz",
  whose count is 0.
\<close>

theorem tie_break_on_specified_count_counterexample:
  "most_relevant_tag ''databases'' [''zzz'', ''data'', ''dat''] = Inr ''zzz''
   \<and> map (spec_relevance (findall_words (lower ''databases''))) [''zzz'', ''data'', ''dat'']
       = [0, 1, 1]
   \<and> map (relevance (findall_words (lower ''databases''))) [''zzz'', ''data'', ''dat'']
       = [0, 0, 0]"
  by code_simp

section \<open>User extraction: the four steps of a user\<close>

lemma try_user_info_eq:
  "try_user_info u (t, w) =
     (t\<lparr>users_top_writer_in_df := users_top_writer_in_df t @ user_keyword_rows u,
        users_info_df := users_info_df t @ user_info_rows u\<rparr>,
      w\<lparr>log := log w @ logged ''Getting user info failed for user_id: '' (u_id u)
                         ''. Error: '' (user_info_failure u)\<rparr>)"
  by (simp add: try_user_info_def user_keyword_rows_def user_info_rows_def logged_def
        user_info_failure_def logger_error_def Let_def split: sum.splits)

lemma try_user_followers_eq:
  "try_user_followers u (t, w) =
     (t\<lparr>user_followers_df := user_followers_df t @ user_follower_rows u\<rparr>,
      w\<lparr>log := log w @ logged ''Getting followers users failed for user_id: '' (u_id u)
                         ''. Error: '' (failure_of (u_followers_ids u))\<rparr>)"
  by (simp add: try_user_followers_def user_follower_rows_def logged_def failure_of_def
        logger_error_def Let_def split: sum.splits)

lemma try_user_followings_eq:
  "try_user_followings u (t, w) =
     (t\<lparr>user_followings_df := user_followings_df t @ user_following_rows u\<rparr>,
      w\<lparr>log := log w @ logged ''Getting following users failed for user_id: '' (u_id u)
                         ''. Error: '' (failure_of (u_following_ids u))\<rparr>)"
  by (simp add: try_user_followings_def user_following_rows_def logged_def failure_of_def
        logger_error_def Let_def split: sum.splits)

lemma try_user_articles_eq:
  "try_user_articles u (t, w) =
     (t\<lparr>users_articles_df := users_articles_df t @ user_article_rows u\<rparr>,
      w\<lparr>log := log w @ logged ''Getting articles for user_id: '' (u_id u)
                         '' failed. Error: '' (failure_of (u_article_ids u))\<rparr>)"
  by (simp add: try_user_articles_def user_article_rows_def logged_def failure_of_def
        logger_error_def Let_def split: sum.splits)

lemma user_step_eq:
  "user_step u (t, w) =
     (\<lparr>users_info_df = users_info_df t @ user_info_rows u,
       users_top_writer_in_df = users_top_writer_in_df t @ user_keyword_rows u,
       user_followers_df = user_followers_df t @ user_follower_rows u,
       user_followings_df = user_followings_df t @ user_following_rows u,
       users_articles_df = users_articles_df t @ user_article_rows u\<rparr>,
      w\<lparr>log := log w @ user_log u\<rparr>)"
  by (simp add: user_step_def try_user_info_eq try_user_followers_eq try_user_followings_eq
        try_user_articles_eq user_log_def)

lemma fold_user_step:
  "fold user_step us (t, w) =
     (\<lparr>users_info_df = users_info_df t @ concat (map user_info_rows us),
       users_top_writer_in_df = users_top_writer_in_df t @ concat (map user_keyword_rows us),
       user_followers_df = user_followers_df t @ concat (map user_follower_rows us),
       user_followings_df = user_followings_df t @ concat (map user_following_rows us),
       users_articles_df = users_articles_df t @ concat (map user_article_rows us)\<rparr>,
      w\<lparr>log := log w @ concat (map user_log us)\<rparr>)"
proof (induction us arbitrary: t w)
  case Nil show ?case by simp
next
  case (Cons u us) show ?case by (simp add: user_step_eq Cons.IH)
qed

lemma logged_names: "m \<in> set (logged before uid after r) \<Longrightarrow> sublist uid m"
  by (auto simp: logged_def sublist_def split: option.splits)

lemma logged_length: "length (logged before uid after r) = (if r = None then 0 else 1)"
  by (simp add: logged_def split: option.splits)

text \<open>
  C6. For every user the four steps (info, followers, following, article ids) are
  isolated: each table receives, user after user, exactly what the one attribute it is
  built from yields, whatever happens in the other three steps and in the users before;
  every failing step is logged once, in a line that names the user.
\<close>

theorem extract_users_steps_isolated:
  "\<exists>t w'. extract_users E us cfg False w = (Inr t, w')
     \<and> users_info_df t = concat (map user_info_rows us)
     \<and> users_top_writer_in_df t = concat (map user_keyword_rows us)
     \<and> user_followers_df t = concat (map user_follower_rows us)
     \<and> user_followings_df t = concat (map user_following_rows us)
     \<and> users_articles_df t = concat (map user_article_rows us)
     \<and> log w' = log w @ concat (map user_log us)
     \<and> (\<forall>u\<in>set us. length (user_log u) = failed_steps u
                     \<and> (\<forall>m\<in>set (user_log u). sublist (u_id u) m))"
proof -
  have names: "\<And>u m. m \<in> set (user_log u) \<Longrightarrow> sublist (u_id u) m"
    unfolding user_log_def by (auto dest: logged_names)
  have count: "\<And>u. length (user_log u) = failed_steps u"
    by (simp add: user_log_def failed_steps_def logged_length)
  show ?thesis
    using names count
    by (simp add: extract_users_def finish_def fold_user_step no_users_tables_def Let_def)
qed

theorem extract_users_steps_isolated_witness:
  "\<exists>t w'. extract_users mock_env [writer_three, writer_one] mock_config False world0 = (Inr t, w')
     \<and> users_info_df t = [[(''id'', PStr ''w3'')],
                           [(''id'', PStr ''w1''), (''fullname'', PStr ''Ann'')]]
     \<and> user_followers_df t = [[(''user_id'', PStr ''w1''), (''follower_id'', PStr ''f1'')]]
     \<and> user_followings_df t = [[(''user_id'', PStr ''w3''), (''following_id'', PStr ''g3'')],
                                [(''user_id'', PStr ''w1''), (''following_id'', PStr ''g1'')]]
     \<and> log w' = [''Getting followers users failed for user_id: w3. Error: timeout'']"
proof -
  obtain t w' where r:
      "extract_users mock_env [writer_three, writer_one] mock_config False world0 = (Inr t, w')"
      "users_info_df t = concat (map user_info_rows [writer_three, writer_one])"
      "user_followers_df t = concat (map user_follower_rows [writer_three, writer_one])"
      "user_followings_df t = concat (map user_following_rows [writer_three, writer_one])"
      "log w' = log world0 @ concat (map user_log [writer_three, writer_one])"
    using extract_users_steps_isolated [of mock_env "[writer_three, writer_one]" mock_config world0]
    by blast
  have "concat (map user_info_rows [writer_three, writer_one])
          = [[(''id'', PStr ''w3'')], [(''id'', PStr ''w1''), (''fullname'', PStr ''Ann'')]]"
    by code_simp
  moreover have "concat (map user_follower_rows [writer_three, writer_one])
          = [[(''user_id'', PStr ''w1''), (''follower_id'', PStr ''f1'')]]"
    by code_simp
  moreover have "concat (map user_following_rows [writer_three, writer_one])
          = [[(''user_id'', PStr ''w3''), (''following_id'', PStr ''g3'')],
             [(''user_id'', PStr ''w1''), (''following_id'', PStr ''g1'')]]"
    by code_simp
  moreover have "log world0 @ concat (map user_log [writer_three, writer_one])
          = [''Getting followers users failed for user_id: w3. Error: timeout'']"
    by code_simp
  ultimately show ?thesis using r by simp
qed

text \<open>
  C1, evaluated on the scenario of the specification: two top writers, the first with
  three article ids, the second with an empty list. The user-articles table has four
  rows, the fourth pairing the second writer with a null article id, whereas the guarded
  keyword table has no row for the first writer's empty keyword list.
\<close>

theorem extract_users_empty_article_ids_null_row:
  "map_sum id users_articles_df
     (fst (extract_users mock_env [writer_one, writer_two] mock_config False world0))
     = Inr [[(''user_id'', PStr ''w1''), (''article_id'', PStr ''a1'')],
            [(''user_id'', PStr ''w1''), (''article_id'', PStr ''a2'')],
            [(''user_id'', PStr ''w1''), (''article_id'', PStr ''a3'')],
            [(''user_id'', PStr ''w2''), (''article_id'', PNaN)]]
   \<and> map_sum id users_top_writer_in_df
       (fst (extract_users mock_env [writer_one, writer_two] mock_config False world0))
     = Inr [[(''user_id'', PStr ''w2''), (''keyword'', PStr ''data'')]]"
  by code_simp

section \<open>Loading\<close>

lemma try_load_independent:
  "loaded_independently E cfg cred [kd] w (try_load E cfg cred kd w)"
  by (simp add: loaded_independently_def try_load_def attempted_def accepted_def
        load_failures_def logger_error_def Let_def split: option.splits)

lemma loaded_independently_trans:
  "loaded_independently E cfg cred xs w w1 \<Longrightarrow> loaded_independently E cfg cred ys w1 w2
     \<Longrightarrow> loaded_independently E cfg cred (xs @ ys) w w2"
  by (simp add: loaded_independently_def attempted_def accepted_def load_failures_def)

lemma fold_try_load_independent:
  "loaded_independently E cfg cred tabs w (fold (try_load E cfg cred) tabs w)"
proof (induction tabs arbitrary: w)
  case Nil
  show ?case
    by (simp add: loaded_independently_def attempted_def accepted_def load_failures_def)
next
  case (Cons kd tabs)
  have "loaded_independently E cfg cred ([kd] @ tabs) w
          (fold (try_load E cfg cred) tabs (try_load E cfg cred kd w))"
    using try_load_independent Cons.IH by (rule loaded_independently_trans)
  then show ?case by simp
qed

lemma finish_False: "finish E cfg False tabs r w = (Inr r, w)"
  by (simp add: finish_def)

lemma finish_True_loaded:
  "from_service_account_file E (cfg ''credentials_path'') = Inr cred
     \<Longrightarrow> finish E cfg True tabs r w = (Inr r, fold (try_load E cfg cred) tabs w)"
  by (simp add: finish_def load_tables_def)

lemma finish_True_fatal:
  "from_service_account_file E (cfg ''credentials_path'') = Inl e
     \<Longrightarrow> finish E cfg True tabs r w = (Inl e, w)"
  by (simp add: finish_def load_tables_def)

lemma extract_users_loop_calls:
  "gbq_calls (snd (fold user_step us (t, w))) = gbq_calls w"
  by (simp add: fold_user_step)

lemma load_blocks_independent:
  assumes "from_service_account_file E (cfg ''credentials_path'') = Inr cred"
  shows "(\<exists>t w'. extract_users E us cfg True w = (Inr t, w')
            \<and> loaded_independently E cfg cred (users_load_list t)
                 (snd (extract_users E us cfg False w)) w')
       \<and> (\<forall>t. for_each (article_step E) df no_articles_tables = Inr t \<longrightarrow>
            (\<exists>w'. fetch_user_articles_info E df cfg True w = (Inr t, w')
               \<and> loaded_independently E cfg cred (articles_load_list t) w w'))
       \<and> (\<forall>ps t. medium_search_publications E topic = Inr ps
                  \<and> for_each publication_step ps no_publications_tables = Inr t \<longrightarrow>
            (\<exists>w'. fetch_publications_info E topic cfg True w = (Inr t, w')
               \<and> loaded_independently E cfg cred (publications_load_list t) w w'))
       \<and> (\<forall>t. for_each (feed_step E topic count (datetime_now E 0)) modes [] = Inr t \<longrightarrow>
            (\<exists>w'. fetch_top_feeds E topic modes count cfg True w = (Inr t, w')
               \<and> loaded_independently E cfg cred [(''top_feeds_table'', t)] w w'))"
proof (intro conjI allI impI)
  show "\<exists>t w'. extract_users E us cfg True w = (Inr t, w')
            \<and> loaded_independently E cfg cred (users_load_list t)
                 (snd (extract_users E us cfg False w)) w'"
    by (simp add: extract_users_def Let_def finish_False finish_True_loaded [of E cfg cred, OF assms]
          fold_try_load_independent)
next
  fix t assume "for_each (article_step E) df no_articles_tables = Inr t"
  then show "\<exists>w'. fetch_user_articles_info E df cfg True w = (Inr t, w')
               \<and> loaded_independently E cfg cred (articles_load_list t) w w'"
    by (simp add: fetch_user_articles_info_def finish_True_loaded [of E cfg cred, OF assms]
          fold_try_load_independent)
next
  fix ps t assume "medium_search_publications E topic = Inr ps
                  \<and> for_each publication_step ps no_publications_tables = Inr t"
  then show "\<exists>w'. fetch_publications_info E topic cfg True w = (Inr t, w')
               \<and> loaded_independently E cfg cred (publications_load_list t) w w'"
    by (simp add: fetch_publications_info_def finish_True_loaded [of E cfg cred, OF assms]
          fold_try_load_independent)
next
  fix t assume "for_each (feed_step E topic count (datetime_now E 0)) modes [] = Inr t"
  then show "\<exists>w'. fetch_top_feeds E topic modes count cfg True w = (Inr t, w')
               \<and> loaded_independently E cfg cred [(''top_feeds_table'', t)] w w'"
    by (simp add: fetch_top_feeds_def Let_def finish_True_loaded [of E cfg cred, OF assms]
          try_load_independent)
qed

text \<open>
  C7. With loading enabled and the credentials loaded, every destination table of an
  operation is passed to the warehouse, in the order of the source, whatever the fate of
  the others; the warehouse holds each table it accepted, and each refusal is logged in
  a line that names the table. This holds for the five tables of user extraction and,
  when their extraction loop has come to its end, for the eight tables of the articles,
  the four of the publications and the table of the top feeds, each under the
  destination named by its own configuration key.
\<close>

theorem loads_are_independent:
  assumes "from_service_account_file E (cfg ''credentials_path'') = Inr cred"
  shows "(\<exists>t w'. extract_users E us cfg True w = (Inr t, w')
            \<and> loaded_independently E cfg cred
                 [(''user_info_table'', users_info_df t),
                  (''users_top_writer_in_table'', users_top_writer_in_df t),
                  (''user_followers_table'', user_followers_df t),
                  (''user_followings_table'', user_followings_df t),
                  (''users_articles_table'', users_articles_df t)]
                 (snd (extract_users E us cfg False w)) w')
       \<and> (\<forall>t. for_each (article_step E) df no_articles_tables = Inr t \<longrightarrow>
            (\<exists>w'. fetch_user_articles_info E df cfg True w = (Inr t, w')
               \<and> loaded_independently E cfg cred
                    [(''articles_info_table'', articles_info_df t),
                     (''article_tags_table'', article_tags_df t),
                     (''article_topics_table'', article_topics_df t),
                     (''article_fans_id_table'', article_fans_id_df t),
                     (''article_related_articles_table'', article_related_articles_ids_df t),
                     (''articles_comments_info_table'', articles_comments_info_df t),
                     (''article_comments_tag_info_table'', article_comments_tag_info_df t),
                     (''article_comments_topic_info_table'',
                        article_comments_topic_info_df t)]
                    w w'))
       \<and> (\<forall>ps t. medium_search_publications E topic = Inr ps
                  \<and> for_each publication_step ps no_publications_tables = Inr t \<longrightarrow>
            (\<exists>w'. fetch_publications_info E topic cfg True w = (Inr t, w')
               \<and> loaded_independently E cfg cred
                    [(''publication_info_table'', publication_info_df t),
                     (''publication_tags_table'', publication_tags_df t),
                     (''publication_editors_table'', publication_editors_df t),
                     (''publication_articles_table'', publication_articles_df t)]
                    w w'))
       \<and> (\<forall>t. for_each (feed_step E topic count (datetime_now E 0)) modes [] = Inr t \<longrightarrow>
            (\<exists>w'. fetch_top_feeds E topic modes count cfg True w = (Inr t, w')
               \<and> loaded_independently E cfg cred [(''top_feeds_table'', t)] w w'))"
  using load_blocks_independent
          [where E = E and cfg = cfg and cred = cred and us = us and w = w and df = df
             and topic = topic and count = count and modes = modes, OF assms]
  unfolding users_load_list_def articles_load_list_def publications_load_list_def .

theorem loads_are_independent_witness:
  "from_service_account_file flaky_env (mock_config ''credentials_path'') = Inr ''service-account''
   \<and> (\<exists>t w'. extract_users flaky_env [writer_one] mock_config True world0 = (Inr t, w')
        \<and> map fst (gbq_calls w') = [''proj.medium.users'', ''proj.medium.keywords'',
             ''proj.medium.followers'', ''proj.medium.followings'',
             ''proj.medium.user_articles'']
        \<and> map fst (warehouse w') = [''proj.medium.users'', ''proj.medium.keywords'',
             ''proj.medium.followings'', ''proj.medium.user_articles'']
        \<and> log w' = [''Uploading records to table: followers failed. Error: quota exceeded''])
   \<and> from_service_account_file picky_env (full_config ''credentials_path'') = Inr ''service-account''
   \<and> (\<exists>t w'. for_each (article_step picky_env) [article_row ''a2''] no_articles_tables = Inr t
        \<and> fetch_user_articles_info picky_env [article_row ''a2''] full_config True world0
            = (Inr t, w')
        \<and> map fst (gbq_calls w') = [''proj.medium.articles'', ''proj.medium.article_tags'',
             ''proj.medium.article_topics'', ''proj.medium.article_fans'',
             ''proj.medium.article_related'', ''proj.medium.comments'',
             ''proj.medium.comment_tags'', ''proj.medium.comment_topics'']
        \<and> map fst (warehouse w') = [''proj.medium.articles'', ''proj.medium.article_tags'',
             ''proj.medium.article_fans'']
        \<and> length (log w') = 5)
   \<and> (\<exists>t w'. medium_search_publications
                 (refusing ''proj.medium.publication_editors'' (search_env [publication_one]))
                 ''data'' = Inr [publication_one]
        \<and> for_each publication_step [publication_one] no_publications_tables = Inr t
        \<and> fetch_publications_info
              (refusing ''proj.medium.publication_editors'' (search_env [publication_one]))
              ''data'' full_config True world0 = (Inr t, w')
        \<and> map fst (gbq_calls w') = [''proj.medium.publications'',
             ''proj.medium.publication_tags'', ''proj.medium.publication_editors'',
             ''proj.medium.publication_articles'']
        \<and> map fst (warehouse w') = [''proj.medium.publications'',
             ''proj.medium.publication_tags'', ''proj.medium.publication_articles'']
        \<and> log w' = [''Uploading records to table: publication_editors failed. Error: quota exceeded''])
   \<and> (\<exists>t w'. for_each (feed_step (refusing ''proj.medium.top_feeds'' feeds_env) ''data''
                          (PInt 2) (datetime_now (refusing ''proj.medium.top_feeds'' feeds_env) 0))
                 [''hot'', ''new''] [] = Inr t
        \<and> fetch_top_feeds (refusing ''proj.medium.top_feeds'' feeds_env) ''data''
              [''hot'', ''new''] (PInt 2) full_config True world0 = (Inr t, w')
        \<and> map fst (gbq_calls w') = [''proj.medium.top_feeds'']
        \<and> warehouse w' = []
        \<and> log w' = [''Uploading records to table: top_feeds failed. Error: quota exceeded''])"
proof -
  let ?PE = "refusing ''proj.medium.publication_editors'' (search_env [publication_one])"
  let ?FE = "refusing ''proj.medium.top_feeds'' feeds_env"
  have c: "from_service_account_file flaky_env (mock_config ''credentials_path'')
             = Inr ''service-account''"
    by code_simp
  obtain t w' where r:
      "extract_users flaky_env [writer_one] mock_config True world0 = (Inr t, w')"
    using loads_are_independent [where E = flaky_env and cfg = mock_config
            and cred = "''service-account''" and us = "[writer_one]" and w = world0, OF c]
    by blast
  have "map fst (gbq_calls (snd (extract_users flaky_env [writer_one] mock_config True world0)))
          = [''proj.medium.users'', ''proj.medium.keywords'', ''proj.medium.followers'',
             ''proj.medium.followings'', ''proj.medium.user_articles'']"
    by code_simp
  moreover have "map fst (warehouse (snd (extract_users flaky_env [writer_one] mock_config True world0)))
          = [''proj.medium.users'', ''proj.medium.keywords'',
             ''proj.medium.followings'', ''proj.medium.user_articles'']"
    by code_simp
  moreover have "log (snd (extract_users flaky_env [writer_one] mock_config True world0))
          = [''Uploading records to table: followers failed. Error: quota exceeded'']"
    by code_simp
  ultimately have users: "\<exists>t w'. extract_users flaky_env [writer_one] mock_config True world0 = (Inr t, w')
        \<and> map fst (gbq_calls w') = [''proj.medium.users'', ''proj.medium.keywords'',
             ''proj.medium.followers'', ''proj.medium.followings'',
             ''proj.medium.user_articles'']
        \<and> map fst (warehouse w') = [''proj.medium.users'', ''proj.medium.keywords'',
             ''proj.medium.followings'', ''proj.medium.user_articles'']
        \<and> log w' = [''Uploading records to table: followers failed. Error: quota exceeded'']"
    using r by simp

  have d: "from_service_account_file picky_env (full_config ''credentials_path'')
             = Inr ''service-account''"
    by code_simp
  have "case for_each (article_step picky_env) [article_row ''a2''] no_articles_tables of
          Inl e \<Rightarrow> False | Inr t \<Rightarrow> True"
    by code_simp
  then obtain ta where l: "for_each (article_step picky_env) [article_row ''a2'']
                             no_articles_tables = Inr ta"
    by (auto split: sum.splits)
  obtain wa where a:
      "fetch_user_articles_info picky_env [article_row ''a2''] full_config True world0
         = (Inr ta, wa)"
    using loads_are_independent [where E = picky_env and cfg = full_config
            and cred = "''service-account''" and df = "[article_row ''a2'']" and w = world0, OF d]
          l
    by blast
  have wa: "wa = snd (fetch_user_articles_info picky_env [article_row ''a2''] full_config
                        True world0)"
    using a by simp
  have "map fst (gbq_calls wa) = [''proj.medium.articles'', ''proj.medium.article_tags'',
             ''proj.medium.article_topics'', ''proj.medium.article_fans'',
             ''proj.medium.article_related'', ''proj.medium.comments'',
             ''proj.medium.comment_tags'', ''proj.medium.comment_topics'']"
    unfolding wa by code_simp
  moreover have "map fst (warehouse wa) = [''proj.medium.articles'',
             ''proj.medium.article_tags'', ''proj.medium.article_fans'']"
    unfolding wa by code_simp
  moreover have "length (log wa) = 5" unfolding wa by code_simp
  ultimately have articles: "\<exists>t w'. for_each (article_step picky_env) [article_row ''a2'']
                                       no_articles_tables = Inr t
        \<and> fetch_user_articles_info picky_env [article_row ''a2''] full_config True world0
            = (Inr t, w')
        \<and> map fst (gbq_calls w') = [''proj.medium.articles'', ''proj.medium.article_tags'',
             ''proj.medium.article_topics'', ''proj.medium.article_fans'',
             ''proj.medium.article_related'', ''proj.medium.comments'',
             ''proj.medium.comment_tags'', ''proj.medium.comment_topics'']
        \<and> map fst (warehouse w') = [''proj.medium.articles'', ''proj.medium.article_tags'',
             ''proj.medium.article_fans'']
        \<and> length (log w') = 5"
    using l a by (intro exI [where x = ta] exI [where x = wa]) simp

  have pc: "from_service_account_file ?PE (full_config ''credentials_path'')
              = Inr ''service-account''"
    by code_simp
  have ps: "medium_search_publications ?PE ''data'' = Inr [publication_one]" by code_simp
  have "case for_each publication_step [publication_one] no_publications_tables of
          Inl e \<Rightarrow> False | Inr t \<Rightarrow> True"
    by code_simp
  then obtain tp where pl: "for_each publication_step [publication_one]
                              no_publications_tables = Inr tp"
    by (auto split: sum.splits)
  obtain wp where pf:
      "fetch_publications_info ?PE ''data'' full_config True world0 = (Inr tp, wp)"
    using loads_are_independent [where E = ?PE and cfg = full_config
            and cred = "''service-account''" and topic = "''data''" and w = world0, OF pc]
          ps pl
    by blast
  have wp: "wp = snd (fetch_publications_info ?PE ''data'' full_config True world0)"
    using pf by simp
  have "map fst (gbq_calls wp) = [''proj.medium.publications'',
             ''proj.medium.publication_tags'', ''proj.medium.publication_editors'',
             ''proj.medium.publication_articles'']"
    unfolding wp by code_simp
  moreover have "map fst (warehouse wp) = [''proj.medium.publications'',
             ''proj.medium.publication_tags'', ''proj.medium.publication_articles'']"
    unfolding wp by code_simp
  moreover have "log wp = [''Uploading records to table: publication_editors failed. Error: quota exceeded'']"
    unfolding wp by code_simp
  ultimately have publications: "\<exists>t w'. medium_search_publications ?PE ''data'' = Inr [publication_one]
        \<and> for_each publication_step [publication_one] no_publications_tables = Inr t
        \<and> fetch_publications_info ?PE ''data'' full_config True world0 = (Inr t, w')
        \<and> map fst (gbq_calls w') = [''proj.medium.publications'',
             ''proj.medium.publication_tags'', ''proj.medium.publication_editors'',
             ''proj.medium.publication_articles'']
        \<and> map fst (warehouse w') = [''proj.medium.publications'',
             ''proj.medium.publication_tags'', ''proj.medium.publication_articles'']
        \<and> log w' = [''Uploading records to table: publication_editors failed. Error: quota exceeded'']"
    using ps pl pf by (intro exI [where x = tp] exI [where x = wp]) simp

  have fc: "from_service_account_file ?FE (full_config ''credentials_path'')
              = Inr ''service-account''"
    by code_simp
  have "case for_each (feed_step ?FE ''data'' (PInt 2) (datetime_now ?FE 0))
               [''hot'', ''new''] [] of Inl e \<Rightarrow> False | Inr t \<Rightarrow> True"
    by code_simp
  then obtain tf where fl: "for_each (feed_step ?FE ''data'' (PInt 2) (datetime_now ?FE 0))
                              [''hot'', ''new''] [] = Inr tf"
    by (auto split: sum.splits)
  obtain wf where ff:
      "fetch_top_feeds ?FE ''data'' [''hot'', ''new''] (PInt 2) full_config True world0
         = (Inr tf, wf)"
    using loads_are_independent [where E = ?FE and cfg = full_config
            and cred = "''service-account''" and topic = "''data''" and count = "PInt 2"
            and modes = "[''hot'', ''new'']" and w = world0, OF fc]
          fl
    by blast
  have wf: "wf = snd (fetch_top_feeds ?FE ''data'' [''hot'', ''new''] (PInt 2) full_config
                        True world0)"
    using ff by simp
  have "map fst (gbq_calls wf) = [''proj.medium.top_feeds'']" unfolding wf by code_simp
  moreover have "warehouse wf = []" unfolding wf by code_simp
  moreover have "log wf = [''Uploading records to table: top_feeds failed. Error: quota exceeded'']"
    unfolding wf by code_simp
  ultimately have feeds: "\<exists>t w'. for_each (feed_step ?FE ''data'' (PInt 2) (datetime_now ?FE 0))
                 [''hot'', ''new''] [] = Inr t
        \<and> fetch_top_feeds ?FE ''data'' [''hot'', ''new''] (PInt 2) full_config True world0
            = (Inr t, w')
        \<and> map fst (gbq_calls w') = [''proj.medium.top_feeds'']
        \<and> warehouse w' = []
        \<and> log w' = [''Uploading records to table: top_feeds failed. Error: quota exceeded'']"
    using fl ff by (intro exI [where x = tf] exI [where x = wf]) simp
  show ?thesis using c users d articles publications feeds by (intro conjI) (assumption+)
qed

text \<open>
  C8 (as amended). The flag switches loading and nothing else: what an extraction
  operation returns with the flag off (all its accumulator tables, or the failure its
  extraction loop ended in) it returns with the flag on, unless the credentials cannot
  be loaded, in which case that failure is returned in place of the tables; with the
  flag off nothing is passed to the warehouse. User extraction with the flag off always
  returns its five tables.
\<close>

theorem tables_returned_whatever_the_flag:
  "(\<exists>t w'. extract_users E us cfg False w = (Inr t, w'))
   \<and> flag_only_loads E cfg w (\<lambda>b. extract_users E us cfg b w)
   \<and> flag_only_loads E cfg w (\<lambda>b. fetch_user_articles_info E df cfg b w)
   \<and> flag_only_loads E cfg w (\<lambda>b. fetch_publications_info E topic cfg b w)
   \<and> flag_only_loads E cfg w (\<lambda>b. fetch_top_feeds E topic modes count cfg b w)"
proof (intro conjI)
  show "\<exists>t w'. extract_users E us cfg False w = (Inr t, w')"
    by (simp add: extract_users_def Let_def finish_False)
next
  show "flag_only_loads E cfg w (\<lambda>b. extract_users E us cfg b w)"
    by (simp add: flag_only_loads_def extract_users_def Let_def finish_def load_tables_def
          fold_user_step split: sum.splits)
next
  show "flag_only_loads E cfg w (\<lambda>b. fetch_user_articles_info E df cfg b w)"
    by (simp add: flag_only_loads_def fetch_user_articles_info_def finish_def load_tables_def
          split: sum.splits)
next
  show "flag_only_loads E cfg w (\<lambda>b. fetch_publications_info E topic cfg b w)"
    by (simp add: flag_only_loads_def fetch_publications_info_def finish_def load_tables_def
          split: sum.splits)
next
  show "flag_only_loads E cfg w (\<lambda>b. fetch_top_feeds E topic modes count cfg b w)"
    by (simp add: flag_only_loads_def fetch_top_feeds_def Let_def finish_def load_tables_def
          split: sum.splits)
qed

theorem tables_returned_whatever_the_flag_witness:
  "fst (extract_users mock_env [writer_one] mock_config True world0)
     = fst (extract_users mock_env [writer_one] mock_config False world0)
   \<and> gbq_calls (snd (extract_users mock_env [writer_one] mock_config False world0)) = []"
proof -
  have f: "flag_only_loads mock_env mock_config world0
             (\<lambda>b. extract_users mock_env [writer_one] mock_config b world0)"
    using tables_returned_whatever_the_flag [of mock_env "[writer_one]" mock_config world0]
    by blast
  obtain t w' where r: "extract_users mock_env [writer_one] mock_config False world0 = (Inr t, w')"
    using tables_returned_whatever_the_flag [of mock_env "[writer_one]" mock_config world0]
    by blast
  have c: "from_service_account_file mock_env (mock_config ''credentials_path'')
             = Inr ''service-account''"
    by code_simp
  have g: "gbq_calls world0 = []" by (simp add: world0_def)
  show ?thesis using f r c g by (simp add: flag_only_loads_def)
qed

text \<open>
  C8 as the specification states it fails: with the flag on and a credentials file that
  is rejected, user extraction returns no table, although the same extraction with the
  flag off returns all five.
\<close>

theorem tables_lost_with_flag_counterexample:
  "fst (extract_users locked_env [writer_one] mock_config True world0)
     = Inl (ExternalError ''invalid credentials'')
   \<and> map_sum id (\<lambda>t. length (users_articles_df t))
       (fst (extract_users locked_env [writer_one] mock_config False world0)) = Inr 3"
  by code_simp

lemma fold_try_load_destinations:
  "map fst (gbq_calls (fold (try_load E cfg cred) tabs w))
     = map fst (gbq_calls w) @ map (destination cfg) (map fst tabs)"
  using fold_try_load_independent [of E cfg cred tabs w]
  by (simp add: loaded_independently_def attempted_def comp_def)

lemma try_load_destination:
  "map fst (gbq_calls (try_load E cfg cred kd w))
     = map fst (gbq_calls w) @ [destination cfg (fst kd)]"
  using fold_try_load_destinations [of E cfg cred "[kd]" w] by simp

lemma users_load_keys:
  "map fst (users_load_list t) = [''user_info_table'', ''users_top_writer_in_table'',
     ''user_followers_table'', ''user_followings_table'', ''users_articles_table'']"
  by (simp add: users_load_list_def)

lemma articles_load_keys:
  "map fst (articles_load_list t) = [''articles_info_table'', ''article_tags_table'',
     ''article_topics_table'', ''article_fans_id_table'', ''article_related_articles_table'',
     ''articles_comments_info_table'', ''article_comments_tag_info_table'',
     ''article_comments_topic_info_table'']"
  by (simp add: articles_load_list_def)

lemma publications_load_keys:
  "map fst (publications_load_list t) = [''publication_info_table'', ''publication_tags_table'',
     ''publication_editors_table'', ''publication_articles_table'']"
  by (simp add: publications_load_list_def)

text \<open>
  C9 (as amended). With loading enabled, a failure to load the credentials is fatal in
  every operation: it leaves the operation (once its extraction loop has ended) before
  any table is passed to the warehouse, and no boundary absorbs it. The loader is given
  the configured path, or \<^verbatim>\<open>None\<close> when \<^verbatim>\<open>credentials_path\<close> is missing, so a
  missing path is fatal exactly when the loader raises on it. A missing project, dataset
  or table-name key raises nothing: when the credentials load, the operation returns its
  tables and every table is passed to the warehouse under the destination built from
  the configuration as it is, a missing entry reading "None".
\<close>

theorem credentials_failure_is_fatal:
  "(from_service_account_file E (cfg ''credentials_path'') = Inl e \<longrightarrow>
      fst (extract_users E us cfg True w) = Inl e
      \<and> gbq_calls (snd (extract_users E us cfg True w)) = gbq_calls w
      \<and> (\<forall>t. for_each (article_step E) df no_articles_tables = Inr t \<longrightarrow>
            fetch_user_articles_info E df cfg True w = (Inl e, w))
      \<and> (\<forall>ps t. medium_search_publications E topic = Inr ps
                 \<and> for_each publication_step ps no_publications_tables = Inr t \<longrightarrow>
            fetch_publications_info E topic cfg True w = (Inl e, w))
      \<and> (\<forall>t. for_each (feed_step E topic count (datetime_now E 0)) modes [] = Inr t \<longrightarrow>
            fetch_top_feeds E topic modes count cfg True w = (Inl e, w)))
   \<and> (from_service_account_file E (cfg ''credentials_path'') = Inr cred \<longrightarrow>
        (\<exists>t w'. extract_users E us cfg True w = (Inr t, w')
           \<and> map fst (gbq_calls w') = map fst (gbq_calls w)
                @ map (destination cfg) [''user_info_table'', ''users_top_writer_in_table'',
                     ''user_followers_table'', ''user_followings_table'',
                     ''users_articles_table''])
        \<and> (\<forall>t. for_each (article_step E) df no_articles_tables = Inr t \<longrightarrow>
              (\<exists>w'. fetch_user_articles_info E df cfg True w = (Inr t, w')
                 \<and> map fst (gbq_calls w') = map fst (gbq_calls w)
                      @ map (destination cfg) [''articles_info_table'', ''article_tags_table'',
                        ''article_topics_table'', ''article_fans_id_table'',
                        ''article_related_articles_table'', ''articles_comments_info_table'',
                        ''article_comments_tag_info_table'',
                        ''article_comments_topic_info_table'']))
        \<and> (\<forall>ps t. medium_search_publications E topic = Inr ps
                   \<and> for_each publication_step ps no_publications_tables = Inr t \<longrightarrow>
              (\<exists>w'. fetch_publications_info E topic cfg True w = (Inr t, w')
                 \<and> map fst (gbq_calls w') = map fst (gbq_calls w)
                      @ map (destination cfg) [''publication_info_table'', ''publication_tags_table'',
                        ''publication_editors_table'', ''publication_articles_table'']))
        \<and> (\<forall>t. for_each (feed_step E topic count (datetime_now E 0)) modes [] = Inr t \<longrightarrow>
              (\<exists>w'. fetch_top_feeds E topic modes count cfg True w = (Inr t, w')
                 \<and> map fst (gbq_calls w') = map fst (gbq_calls w)
                      @ map (destination cfg) [''top_feeds_table''])))
   \<and> (cfg ''project'' = None \<and> cfg ''dataset_id'' = None \<and> cfg key = None \<longrightarrow>
        destination cfg key = ''None.None.None'')"
proof (intro conjI impI allI)
  assume a: "from_service_account_file E (cfg ''credentials_path'') = Inl e"
  show "fst (extract_users E us cfg True w) = Inl e"
    by (simp add: extract_users_def Let_def finish_True_fatal [of E cfg e, OF a])
  show "gbq_calls (snd (extract_users E us cfg True w)) = gbq_calls w"
    by (simp add: extract_users_def Let_def finish_True_fatal [of E cfg e, OF a] fold_user_step)
  {
    fix t assume "for_each (article_step E) df no_articles_tables = Inr t"
    then show "fetch_user_articles_info E df cfg True w = (Inl e, w)"
      by (simp add: fetch_user_articles_info_def finish_True_fatal [of E cfg e, OF a])
  }
  {
    fix ps t assume "medium_search_publications E topic = Inr ps
                 \<and> for_each publication_step ps no_publications_tables = Inr t"
    then show "fetch_publications_info E topic cfg True w = (Inl e, w)"
      by (simp add: fetch_publications_info_def finish_True_fatal [of E cfg e, OF a])
  }
  {
    fix t assume "for_each (feed_step E topic count (datetime_now E 0)) modes [] = Inr t"
    then show "fetch_top_feeds E topic modes count cfg True w = (Inl e, w)"
      by (simp add: fetch_top_feeds_def Let_def finish_True_fatal [of E cfg e, OF a])
  }
next
  assume a: "from_service_account_file E (cfg ''credentials_path'') = Inr cred"
  show "\<exists>t w'. extract_users E us cfg True w = (Inr t, w')
           \<and> map fst (gbq_calls w') = map fst (gbq_calls w)
                @ map (destination cfg) [''user_info_table'', ''users_top_writer_in_table'',
                     ''user_followers_table'', ''user_followings_table'',
                     ''users_articles_table'']"
    by (simp add: extract_users_def Let_def finish_True_loaded [of E cfg cred, OF a]
          fold_try_load_destinations users_load_keys extract_users_loop_calls)
  {
    fix t assume "for_each (article_step E) df no_articles_tables = Inr t"
    then show "\<exists>w'. fetch_user_articles_info E df cfg True w = (Inr t, w')
                 \<and> map fst (gbq_calls w') = map fst (gbq_calls w)
                      @ map (destination cfg) [''articles_info_table'', ''article_tags_table'',
                        ''article_topics_table'', ''article_fans_id_table'',
                        ''article_related_articles_table'', ''articles_comments_info_table'',
                        ''article_comments_tag_info_table'',
                        ''article_comments_topic_info_table'']"
      by (simp add: fetch_user_articles_info_def finish_True_loaded [of E cfg cred, OF a]
            fold_try_load_destinations articles_load_keys)
  }
  {
    fix ps t assume "medium_search_publications E topic = Inr ps
                   \<and> for_each publication_step ps no_publications_tables = Inr t"
    then show "\<exists>w'. fetch_publications_info E topic cfg True w = (Inr t, w')
                 \<and> map fst (gbq_calls w') = map fst (gbq_calls w)
                      @ map (destination cfg) [''publication_info_table'', ''publication_tags_table'',
                        ''publication_editors_table'', ''publication_articles_table'']"
      by (simp add: fetch_publications_info_def finish_True_loaded [of E cfg cred, OF a]
            fold_try_load_destinations publications_load_keys)
  }
  {
    fix t assume "for_each (feed_step E topic count (datetime_now E 0)) modes [] = Inr t"
    then show "\<exists>w'. fetch_top_feeds E topic modes count cfg True w = (Inr t, w')
                 \<and> map fst (gbq_calls w') = map fst (gbq_calls w)
                      @ map (destination cfg) [''top_feeds_table'']"
      by (simp add: fetch_top_feeds_def Let_def finish_True_loaded [of E cfg cred, OF a]
            try_load_destination)
  }
next
  assume "cfg ''project'' = None \<and> cfg ''dataset_id'' = None \<and> cfg key = None"
  then show "destination cfg key = ''None.None.None''"
    by (simp add: destination_def fmt_def)
qed

theorem credentials_failure_is_fatal_witness:
  "from_service_account_file (locked mock_env) (full_config ''credentials_path'')
     = Inl (ExternalError ''invalid credentials'')
   \<and> fst (extract_users (locked mock_env) [writer_one] full_config True world0)
       = Inl (ExternalError ''invalid credentials'')
   \<and> gbq_calls (snd (extract_users (locked mock_env) [writer_one] full_config True world0)) = []
   \<and> (\<exists>t. for_each (article_step (locked library_env)) [article_row ''a2''] no_articles_tables
              = Inr t)
   \<and> fetch_user_articles_info (locked library_env) [article_row ''a2''] full_config True world0
       = (Inl (ExternalError ''invalid credentials''), world0)
   \<and> (\<exists>t. for_each publication_step [publication_one] no_publications_tables = Inr t)
   \<and> fetch_publications_info (locked (search_env [publication_one])) ''data'' full_config
       True world0 = (Inl (ExternalError ''invalid credentials''), world0)
   \<and> fetch_top_feeds (locked feeds_env) ''data'' [''hot'', ''new''] (PInt 2) full_config
       True world0 = (Inl (ExternalError ''invalid credentials''), world0)
   \<and> Map.empty ''credentials_path'' = (None :: string option)
   \<and> from_service_account_file mock_env None = Inl (TypeError ''expected str, not NoneType'')
   \<and> fst (extract_users mock_env [writer_one] Map.empty True world0)
       = Inl (TypeError ''expected str, not NoneType'')
   \<and> from_service_account_file mock_env (bare_config ''credentials_path'') = Inr ''service-account''
   \<and> destination bare_config ''user_info_table'' = ''None.None.None''
   \<and> (\<exists>t w'. extract_users mock_env [writer_one] bare_config True world0 = (Inr t, w')
        \<and> map fst (gbq_calls w') = replicate 5 ''None.None.None'')
   \<and> (\<exists>t w'. fetch_user_articles_info library_env [article_row ''a2''] bare_config True world0
                 = (Inr t, w')
        \<and> map fst (gbq_calls w') = replicate 8 ''None.None.None'')
   \<and> (\<exists>t w'. fetch_publications_info (search_env [publication_one]) ''data'' bare_config
                 True world0 = (Inr t, w')
        \<and> map fst (gbq_calls w') = replicate 4 ''None.None.None'')
   \<and> (\<exists>t w'. fetch_top_feeds feeds_env ''data'' [''hot'', ''new''] (PInt 2) bare_config
                 True world0 = (Inr t, w')
        \<and> map fst (gbq_calls w') = replicate 1 ''None.None.None'')"
proof -
  let ?bad = "ExternalError ''invalid credentials''"
  note claim = credentials_failure_is_fatal
  have g: "gbq_calls world0 = []" by (simp add: world0_def)
  have none3: "bare_config ''project'' = None \<and> bare_config ''dataset_id'' = None"
    by code_simp
  have dest: "\<And>key. bare_config key = None \<Longrightarrow> destination bare_config key = ''None.None.None''"
    using claim [where cfg = bare_config] none3 by blast

  txt \<open>the credentials are rejected\<close>
  have l1: "from_service_account_file (locked mock_env) (full_config ''credentials_path'') = Inl ?bad"
    by code_simp
  have l2: "from_service_account_file (locked library_env) (full_config ''credentials_path'') = Inl ?bad"
    by code_simp
  have l3: "from_service_account_file (locked (search_env [publication_one]))
              (full_config ''credentials_path'') = Inl ?bad"
    by code_simp
  have l4: "from_service_account_file (locked feeds_env) (full_config ''credentials_path'') = Inl ?bad"
    by code_simp
  have "case for_each (article_step (locked library_env)) [article_row ''a2'']
               no_articles_tables of Inl e \<Rightarrow> False | Inr t \<Rightarrow> True"
    by code_simp
  then obtain ta where la: "for_each (article_step (locked library_env)) [article_row ''a2'']
                              no_articles_tables = Inr ta"
    by (auto split: sum.splits)
  have sp: "medium_search_publications (locked (search_env [publication_one])) ''data''
              = Inr [publication_one]"
    by code_simp
  have "case for_each publication_step [publication_one] no_publications_tables of
          Inl e \<Rightarrow> False | Inr t \<Rightarrow> True"
    by code_simp
  then obtain tp where lp: "for_each publication_step [publication_one]
                              no_publications_tables = Inr tp"
    by (auto split: sum.splits)
  have "case for_each (feed_step (locked feeds_env) ''data'' (PInt 2)
                         (datetime_now (locked feeds_env) 0)) [''hot'', ''new''] [] of
          Inl e \<Rightarrow> False | Inr t \<Rightarrow> True"
    by code_simp
  then obtain tf where lf: "for_each (feed_step (locked feeds_env) ''data'' (PInt 2)
                              (datetime_now (locked feeds_env) 0)) [''hot'', ''new''] [] = Inr tf"
    by (auto split: sum.splits)
  have f1: "fst (extract_users (locked mock_env) [writer_one] full_config True world0) = Inl ?bad
            \<and> gbq_calls (snd (extract_users (locked mock_env) [writer_one] full_config True world0))
                = gbq_calls world0"
    using claim [where E = "locked mock_env" and cfg = full_config and e = ?bad
                 and us = "[writer_one]" and w = world0] l1 by blast
  have f2: "fetch_user_articles_info (locked library_env) [article_row ''a2''] full_config
              True world0 = (Inl ?bad, world0)"
    using claim [where E = "locked library_env" and cfg = full_config and e = ?bad
                 and df = "[article_row ''a2'']" and w = world0] l2 la by blast
  have f3: "fetch_publications_info (locked (search_env [publication_one])) ''data'' full_config
              True world0 = (Inl ?bad, world0)"
    using claim [where E = "locked (search_env [publication_one])" and cfg = full_config
                 and e = ?bad and topic = "''data''" and w = world0] l3 sp lp by blast
  have f4: "fetch_top_feeds (locked feeds_env) ''data'' [''hot'', ''new''] (PInt 2) full_config
              True world0 = (Inl ?bad, world0)"
    using claim [where E = "locked feeds_env" and cfg = full_config and e = ?bad
                 and topic = "''data''" and count = "PInt 2" and modes = "[''hot'', ''new'']"
                 and w = world0] l4 lf by blast

  txt \<open>the path is missing\<close>
  have m1: "from_service_account_file mock_env (Map.empty ''credentials_path'')
              = Inl (TypeError ''expected str, not NoneType'')"
    by code_simp
  have m2: "from_service_account_file mock_env None = Inl (TypeError ''expected str, not NoneType'')"
    by code_simp
  have f5: "fst (extract_users mock_env [writer_one] Map.empty True world0)
              = Inl (TypeError ''expected str, not NoneType'')"
    using claim [where E = mock_env and cfg = Map.empty
                 and e = "TypeError ''expected str, not NoneType''" and us = "[writer_one]"
                 and w = world0] m1 by blast

  txt \<open>the credentials load and every other key is missing\<close>
  have b1: "from_service_account_file mock_env (bare_config ''credentials_path'')
              = Inr ''service-account''"
    by code_simp
  have b2: "from_service_account_file library_env (bare_config ''credentials_path'')
              = Inr ''service-account''"
    by code_simp
  have b3: "from_service_account_file (search_env [publication_one]) (bare_config ''credentials_path'')
              = Inr ''service-account''"
    by code_simp
  have b4: "from_service_account_file feeds_env (bare_config ''credentials_path'')
              = Inr ''service-account''"
    by code_simp
  have k: "bare_config ''user_info_table'' = None" "bare_config ''users_top_writer_in_table'' = None"
      "bare_config ''user_followers_table'' = None" "bare_config ''user_followings_table'' = None"
      "bare_config ''users_articles_table'' = None" "bare_config ''articles_info_table'' = None"
      "bare_config ''article_tags_table'' = None" "bare_config ''article_topics_table'' = None"
      "bare_config ''article_fans_id_table'' = None"
      "bare_config ''article_related_articles_table'' = None"
      "bare_config ''articles_comments_info_table'' = None"
      "bare_config ''article_comments_tag_info_table'' = None"
      "bare_config ''article_comments_topic_info_table'' = None"
      "bare_config ''publication_info_table'' = None" "bare_config ''publication_tags_table'' = None"
      "bare_config ''publication_editors_table'' = None"
      "bare_config ''publication_articles_table'' = None" "bare_config ''top_feeds_table'' = None"
    by (simp_all add: bare_config_def)
  have "case for_each (article_step library_env) [article_row ''a2''] no_articles_tables of
          Inl e \<Rightarrow> False | Inr t \<Rightarrow> True"
    by code_simp
  then obtain ta' where la': "for_each (article_step library_env) [article_row ''a2'']
                                no_articles_tables = Inr ta'"
    by (auto split: sum.splits)
  have sp': "medium_search_publications (search_env [publication_one]) ''data''
               = Inr [publication_one]"
    by code_simp
  have "case for_each (feed_step feeds_env ''data'' (PInt 2) (datetime_now feeds_env 0))
               [''hot'', ''new''] [] of Inl e \<Rightarrow> False | Inr t \<Rightarrow> True"
    by code_simp
  then obtain tf' where lf': "for_each (feed_step feeds_env ''data'' (PInt 2)
                                (datetime_now feeds_env 0)) [''hot'', ''new''] [] = Inr tf'"
    by (auto split: sum.splits)
  obtain t1 w1 where p1: "extract_users mock_env [writer_one] bare_config True world0 = (Inr t1, w1)"
      "map fst (gbq_calls w1) = map fst (gbq_calls world0)
         @ map (destination bare_config) [''user_info_table'', ''users_top_writer_in_table'',
              ''user_followers_table'', ''user_followings_table'', ''users_articles_table'']"
    using claim [where E = mock_env and cfg = bare_config and cred = "''service-account''"
                 and us = "[writer_one]" and w = world0] b1 by blast
  obtain w2 where p2: "fetch_user_articles_info library_env [article_row ''a2''] bare_config
                         True world0 = (Inr ta', w2)"
      "map fst (gbq_calls w2) = map fst (gbq_calls world0)
         @ map (destination bare_config) [''articles_info_table'', ''article_tags_table'',
              ''article_topics_table'', ''article_fans_id_table'',
              ''article_related_articles_table'', ''articles_comments_info_table'',
              ''article_comments_tag_info_table'', ''article_comments_topic_info_table'']"
    using claim [where E = library_env and cfg = bare_config and cred = "''service-account''"
                 and df = "[article_row ''a2'']" and w = world0] b2 la' by blast
  obtain w3 where p3: "fetch_publications_info (search_env [publication_one]) ''data''
                         bare_config True world0 = (Inr tp, w3)"
      "map fst (gbq_calls w3) = map fst (gbq_calls world0)
         @ map (destination bare_config) [''publication_info_table'', ''publication_tags_table'',
              ''publication_editors_table'', ''publication_articles_table'']"
    using claim [where E = "search_env [publication_one]" and cfg = bare_config
                 and cred = "''service-account''" and topic = "''data''" and w = world0]
          b3 sp' lp by blast
  obtain w4 where p4: "fetch_top_feeds feeds_env ''data'' [''hot'', ''new''] (PInt 2) bare_config
                         True world0 = (Inr tf', w4)"
      "map fst (gbq_calls w4) = map fst (gbq_calls world0)
         @ map (destination bare_config) [''top_feeds_table'']"
    using claim [where E = feeds_env and cfg = bare_config and cred = "''service-account''"
                 and topic = "''data''" and count = "PInt 2" and modes = "[''hot'', ''new'']"
                 and w = world0] b4 lf' by blast
  have q1: "\<exists>t w'. extract_users mock_env [writer_one] bare_config True world0 = (Inr t, w')
        \<and> map fst (gbq_calls w') = replicate 5 ''None.None.None''"
    using p1 g k dest by (intro exI [where x = t1] exI [where x = w1]) (simp add: numeral_eq_Suc)
  have q2: "\<exists>t w'. fetch_user_articles_info library_env [article_row ''a2''] bare_config True world0
                 = (Inr t, w')
        \<and> map fst (gbq_calls w') = replicate 8 ''None.None.None''"
    using p2 g k dest by (intro exI [where x = ta'] exI [where x = w2]) (simp add: numeral_eq_Suc)
  have q3: "\<exists>t w'. fetch_publications_info (search_env [publication_one]) ''data'' bare_config
                 True world0 = (Inr t, w')
        \<and> map fst (gbq_calls w') = replicate 4 ''None.None.None''"
    using p3 g k dest by (intro exI [where x = tp] exI [where x = w3]) (simp add: numeral_eq_Suc)
  have q4: "\<exists>t w'. fetch_top_feeds feeds_env ''data'' [''hot'', ''new''] (PInt 2) bare_config
                 True world0 = (Inr t, w')
        \<and> map fst (gbq_calls w') = replicate 1 ''None.None.None''"
    using p4 g k dest by (intro exI [where x = tf'] exI [where x = w4]) simp
  have ea: "\<exists>t. for_each (article_step (locked library_env)) [article_row ''a2'']
                   no_articles_tables = Inr t"
    using la by blast
  have ep: "\<exists>t. for_each publication_step [publication_one] no_publications_tables = Inr t"
    using lp by blast
  have d1: "destination bare_config ''user_info_table'' = ''None.None.None''"
    using dest k(1) by blast
  have e0: "Map.empty ''credentials_path'' = (None :: string option)" by simp
  have f1a: "fst (extract_users (locked mock_env) [writer_one] full_config True world0) = Inl ?bad"
    using f1 by blast
  have f1b: "gbq_calls (snd (extract_users (locked mock_env) [writer_one] full_config True world0)) = []"
    using f1 g by simp
  show ?thesis
    using l1 f1a f1b ea f2 ep f3 f4 e0 m2 f5 b1 d1 q1 q2 q3 q4
    by (intro conjI) (assumption+)
qed

text \<open>
  C9 as the specification states it fails: with loading enabled and a configuration in
  which project, dataset and every table name are missing, user extraction raises
  nothing. Each of its five tables is passed to the warehouse under the placeholder
  destination "None.None.None"; the warehouse refuses it, each refusal is absorbed and
  logged, and the tables are returned.
\<close>

theorem missing_key_not_fatal_counterexample:
  "extract_users strict_env [] bare_config True world0
     = (Inr no_users_tables,
        \<lparr>log = [''Uploading records to table: None failed. Error: invalid destination'',
                ''Uploading records to table: None failed. Error: invalid destination'',
                ''Uploading records to table: None failed. Error: invalid destination'',
                ''Uploading records to table: None failed. Error: invalid destination'',
                ''Uploading records to table: None failed. Error: invalid destination''],
         gbq_calls = [(''None.None.None'', []), (''None.None.None'', []),
                      (''None.None.None'', []), (''None.None.None'', []),
                      (''None.None.None'', [])],
         warehouse = []\<rparr>)"
  by code_simp

section \<open>Loops without a failure boundary\<close>

lemma for_each_append:
  "for_each body (xs @ ys) s =
     (case for_each body xs s of Inl e \<Rightarrow> Inl e | Inr s' \<Rightarrow> for_each body ys s')"
  by (induction xs arbitrary: s) (auto split: sum.splits)

lemma for_each_raises:
  "for_each body pre s = Inr s1 \<Longrightarrow> body x s1 = Inl e
     \<Longrightarrow> for_each body (pre @ x # post) s = Inl e"
  by (simp add: for_each_append)

lemma map_of_pop_other:
  "k' \<noteq> k \<Longrightarrow> map_of (snd (pop d k)) k' = map_of d k'"
  unfolding pop_def by (induction d) auto

lemma pop_value: "fst (pop d k) = (case map_of d k of None \<Rightarrow> PNone | Some v \<Rightarrow> v)"
  by (simp add: pop_def)

lemma score_words_no_tags: "score_words W [] = Inl (IndexError ''list index out of range'')"
  by (simp add: score_words_def hashtag_relevance_def most_common_1_def)

lemma map_of_setitem: "map_of (setitem d k v) k' = (if k' = k then Some v else map_of d k')"
  by (induction d) auto

lemma map_of_pop: "map_of (snd (pop d k)) k' = (if k' = k then None else map_of d k')"
  unfolding pop_def by (induction d) auto

lemma add_relation_eq:
  "add_relation info pc cc v df =
     (if truthy v then (case map_of info ''id'' of None \<Rightarrow> Inl (KeyError ''id'')
                        | Some i \<Rightarrow> Inr (df @ exploded_frame pc i cc v))
      else Inr df)"
  by (simp add: add_relation_def bind_err_def getitem_def split: option.splits)

lemma fst_pop_setitem:
  "fst (pop (setitem d k v) k') = (if k' = k then v else fst (pop d k'))"
  by (simp add: pop_def map_of_setitem)

lemma fst_pop_pop:
  "fst (pop (snd (pop d k)) k') = (if k' = k then PNone else fst (pop d k'))"
proof -
  have "map_of (filter (\<lambda>p. fst p \<noteq> k) d) k' = (if k' = k then None else map_of d k')"
    by (induction d) auto
  then show ?thesis by (simp add: pop_def)
qed

lemma comment_step_outcome:
  "case comment_failure c of
     Some e \<Rightarrow> comment_step aid c t = Inl e
   | None \<Rightarrow> (\<exists>t'. comment_step aid c t = Inr t')"
proof (cases "c_info c")
  case (Inl e)
  then show ?thesis by (simp add: comment_failure_def comment_step_def bind_err_def)
next
  case (Inr i)
  show ?thesis
  proof (cases "map_of i ''id''")
    case None
    then show ?thesis using Inr
      by (simp add: comment_failure_def comment_step_def bind_err_def Let_def missing_id_def
            add_relation_eq map_of_pop map_of_setitem fst_pop_setitem fst_pop_pop)
  next
    case (Some v)
    then show ?thesis using Inr
      by (simp add: comment_failure_def comment_step_def bind_err_def Let_def missing_id_def
            add_relation_eq map_of_pop map_of_setitem fst_pop_setitem fst_pop_pop)
  qed
qed

lemma for_each_comments_outcome:
  "case first_error (map comment_failure cs) of
     Some e \<Rightarrow> for_each (comment_step aid) cs t = Inl e
   | None \<Rightarrow> (\<exists>t'. for_each (comment_step aid) cs t = Inr t')"
proof (induction cs arbitrary: t)
  case Nil show ?case by simp
next
  case (Cons c cs)
  show ?case
  proof (cases "comment_failure c")
    case (Some e)
    then show ?thesis using comment_step_outcome [where c = c and aid = aid and t = t] by simp
  next
    case None
    then obtain t' where t': "comment_step aid c t = Inr t'"
      using comment_step_outcome [where c = c and aid = aid and t = t] by auto
    show ?thesis
    proof (cases "first_error (map comment_failure cs)")
      case n: None
      then show ?thesis using None t' Cons.IH [of t'] by simp
    next
      case (Some e)
      then show ?thesis using None t' Cons.IH [of t'] by simp
    qed
  qed
qed

lemma article_object_outcome:
  assumes r: "map_of r ''article_id'' = Some aid" "medium_article E aid = Inr a"
  shows "case article_object_failure a of
           Some e \<Rightarrow> article_step E r t = Inl e
         | None \<Rightarrow> (\<exists>t'. article_step E r t = Inr t')"
proof (cases "a_info a")
  case (Inl e) then show ?thesis using r
    by (simp add: article_object_failure_def article_step_def bind_err_def getitem_def failure_of_def)
next
  case i: (Inr i)
  show ?thesis
  proof (cases "a_fans_ids a")
    case (Inl e) then show ?thesis using r i
      by (simp add: article_object_failure_def article_step_def bind_err_def getitem_def failure_of_def)
  next
    case f: (Inr fans)
    show ?thesis
    proof (cases "a_related_articles_ids a")
      case (Inl e) then show ?thesis using r i f
        by (simp add: article_object_failure_def article_step_def bind_err_def getitem_def failure_of_def)
    next
      case rl: (Inr related)
      show ?thesis
      proof (cases "a_is_self_published a")
        case (Inl e) then show ?thesis using r i f rl
          by (simp add: article_object_failure_def article_step_def bind_err_def getitem_def failure_of_def)
      next
        case sp: (Inr self_published)
        show ?thesis
        proof (cases "a_content a")
          case (Inl e) then show ?thesis using r i f rl sp
            by (simp add: article_object_failure_def article_step_def bind_err_def getitem_def failure_of_def)
        next
          case ct: (Inr content)
          show ?thesis
          proof (cases "a_markdown a")
            case (Inl e) then show ?thesis using r i f rl sp ct
              by (simp add: article_object_failure_def article_step_def bind_err_def getitem_def failure_of_def)
          next
            case md: (Inr markdown)
            note reads = r i f rl sp ct md
            show ?thesis
            proof (cases "map_of i ''id''")
              case None
              show ?thesis
              proof (cases "list_ex truthy [fst (pop i ''tags''), fst (pop i ''topics''), fans, related]")
                case True
                then show ?thesis using reads None
                  by (auto simp: article_object_failure_def article_step_def bind_err_def getitem_def
                        failure_of_def Let_def missing_id_def add_relation_eq map_of_pop
                        map_of_setitem fst_pop_setitem fst_pop_pop)
              next
                case False
                show ?thesis
                proof (cases "a_responses a")
                  case (Inl e)
                  then show ?thesis using reads None False
                    by (simp add: article_object_failure_def article_step_def bind_err_def getitem_def
                          failure_of_def Let_def missing_id_def add_relation_eq map_of_pop
                          map_of_setitem fst_pop_setitem fst_pop_pop)
                next
                  case (Inr cs)
                  show ?thesis
                  proof (cases "first_error (map comment_failure cs)")
                    case n: None
                    then show ?thesis using Inr reads None False
                        for_each_comments_outcome [where cs = cs and aid = aid]
                      by (simp add: article_object_failure_def article_step_def bind_err_def
                            getitem_def failure_of_def Let_def missing_id_def add_relation_eq
                            map_of_pop map_of_setitem fst_pop_setitem fst_pop_pop)
                  next
                    case s: (Some e)
                    then show ?thesis using Inr reads None False
                        for_each_comments_outcome [where cs = cs and aid = aid]
                      by (simp add: article_object_failure_def article_step_def bind_err_def
                            getitem_def failure_of_def Let_def missing_id_def add_relation_eq
                            map_of_pop map_of_setitem fst_pop_setitem fst_pop_pop)
                  qed
                qed
              qed
            next
              case (Some v)
              show ?thesis
              proof (cases "a_responses a")
                case (Inl e)
                then show ?thesis using reads Some
                  by (simp add: article_object_failure_def article_step_def bind_err_def getitem_def
                        failure_of_def Let_def missing_id_def add_relation_eq map_of_pop
                        map_of_setitem fst_pop_setitem fst_pop_pop)
              next
                case (Inr cs)
                show ?thesis
                proof (cases "first_error (map comment_failure cs)")
                  case n: None
                  then show ?thesis using Inr reads Some
                      for_each_comments_outcome [where cs = cs and aid = aid]
                    by (simp add: article_object_failure_def article_step_def bind_err_def
                          getitem_def failure_of_def Let_def missing_id_def add_relation_eq
                          map_of_pop map_of_setitem fst_pop_setitem fst_pop_pop)
                next
                  case s: (Some e)
                  then show ?thesis using Inr reads Some
                      for_each_comments_outcome [where cs = cs and aid = aid]
                    by (simp add: article_object_failure_def article_step_def bind_err_def
                          getitem_def failure_of_def Let_def missing_id_def add_relation_eq
                          map_of_pop map_of_setitem fst_pop_setitem fst_pop_pop)
                qed
              qed
            qed
          qed
        qed
      qed
    qed
  qed
qed


lemma article_step_outcome:
  "case article_failure E r of
     Some e \<Rightarrow> article_step E r t = Inl e
   | None \<Rightarrow> (\<exists>t'. article_step E r t = Inr t')"
proof (cases "map_of r ''article_id''")
  case None
  then show ?thesis
    by (simp add: article_failure_def article_step_def bind_err_def getitem_def)
next
  case (Some aid)
  show ?thesis
  proof (cases "medium_article E aid")
    case (Inl e)
    then show ?thesis using Some
      by (simp add: article_failure_def article_step_def bind_err_def getitem_def)
  next
    case (Inr a)
    then show ?thesis using Some article_object_outcome [OF Some Inr, where t = t]
      by (simp add: article_failure_def)
  qed
qed

lemma article_step_raises: "article_failure E r = Some e \<Longrightarrow> article_step E r t = Inl e"
  using article_step_outcome [where E = E and r = r and t = t] by simp

lemma article_step_returns: "article_failure E r = None \<Longrightarrow> \<exists>t'. article_step E r t = Inr t'"
  using article_step_outcome [where E = E and r = r and t = t] by simp

lemma iter_tags_truthy: "iter_tags v = Inr (x # xs) \<Longrightarrow> truthy v"
  by (cases v) (auto split: if_splits)

lemma score_words_returns: "tags \<noteq> [] \<Longrightarrow> \<exists>best. score_words W tags = Inr best"
  using score_words_first_max [of tags W] by blast

lemma publication_step_outcome:
  "case publication_failure p of
     Some e \<Rightarrow> publication_step p t = Inl e
   | None \<Rightarrow> (\<exists>t'. publication_step p t = Inr t')"
proof (cases "p_info p")
  case (Inl e)
  then show ?thesis by (simp add: publication_failure_def publication_step_def bind_err_def)
next
  case i: (Inr i)
  show ?thesis
  proof (cases "p_articles p")
    case (Inl e)
    then show ?thesis using i
      by (simp add: publication_failure_def publication_step_def bind_err_def Let_def)
  next
    case a: (Inr ids)
    show ?thesis
    proof (cases "map_of i ''description''")
      case None
      then show ?thesis using i a
        by (simp add: publication_failure_def publication_step_def bind_err_def Let_def
              getitem_def map_of_pop)
    next
      case d: (Some d)
      show ?thesis
      proof (cases "str_lower d")
        case (Inl e)
        then show ?thesis using i a d
          by (simp add: publication_failure_def publication_step_def bind_err_def Let_def
                getitem_def map_of_pop)
      next
        case l: (Inr lowered)
        show ?thesis
        proof (cases "iter_tags (fst (pop i ''tags''))")
          case (Inl e)
          then show ?thesis using i a d l
            by (simp add: publication_failure_def publication_step_def bind_err_def Let_def
                  getitem_def map_of_pop)
        next
          case (Inr tags)
          show ?thesis
          proof (cases tags)
            case Nil
            then show ?thesis using i a d l Inr
              by (simp add: publication_failure_def publication_step_def bind_err_def Let_def
                    getitem_def map_of_pop score_words_no_tags)
          next
            case (Cons x xs)
            then obtain best where b: "score_words (findall_words lowered) tags = Inr best"
              using score_words_returns [of tags] by blast
            have tr: "truthy (fst (pop i ''tags''))"
              using Inr Cons iter_tags_truthy by blast
            show ?thesis
            proof (cases "map_of i ''id''")
              case None
              then show ?thesis using i a d l Inr Cons b tr
                by (simp add: publication_failure_def publication_step_def bind_err_def Let_def
                      getitem_def map_of_pop map_of_setitem add_relation_eq)
            next
              case (Some v)
              then show ?thesis using i a d l Inr Cons b tr
                by (simp add: publication_failure_def publication_step_def bind_err_def Let_def
                      getitem_def map_of_pop map_of_setitem add_relation_eq)
            qed
          qed
        qed
      qed
    qed
  qed
qed

lemma publication_step_raises: "publication_failure p = Some e \<Longrightarrow> publication_step p t = Inl e"
  using publication_step_outcome [where p = p and t = t] by simp

lemma publication_step_returns:
  "publication_failure p = None \<Longrightarrow> \<exists>t'. publication_step p t = Inr t'"
  using publication_step_outcome [where p = p and t = t] by simp

lemma for_each_returns:
  "(\<And>x s. x \<in> set xs \<Longrightarrow> \<exists>s'. body x s = Inr s') \<Longrightarrow> \<exists>s'. for_each body xs s = Inr s'"
proof (induction xs arbitrary: s)
  case Nil show ?case by simp
next
  case (Cons x xs)
  obtain s1 where "body x s = Inr s1" using Cons.prems [of x s] by auto
  moreover have "\<exists>s'. for_each body xs s1 = Inr s'" using Cons.IH [of s1] Cons.prems by auto
  ultimately show ?case by simp
qed

lemma for_each_some_raises:
  "x \<in> set xs \<Longrightarrow> (\<And>s. body x s = Inl e) \<Longrightarrow> \<exists>e'. for_each body xs s = Inl e'"
proof (induction xs arbitrary: s)
  case Nil then show ?case by simp
next
  case (Cons y ys)
  show ?case
  proof (cases "body y s")
    case (Inl e') then show ?thesis by simp
  next
    case (Inr s1)
    have "x \<noteq> y" using Inr Cons.prems(2) [of s] by auto
    then have "x \<in> set ys" using Cons.prems(1) by simp
    then show ?thesis using Inr Cons.IH [of s1] Cons.prems(2) by simp
  qed
qed

lemma for_each_first_raises:
  "(\<And>x s. x \<in> set pre \<Longrightarrow> \<exists>s'. body x s = Inr s') \<Longrightarrow> (\<And>s. body x s = Inl e)
     \<Longrightarrow> for_each body (pre @ x # post) s = Inl e"
proof -
  assume a: "\<And>x s. x \<in> set pre \<Longrightarrow> \<exists>s'. body x s = Inr s'" and b: "\<And>s. body x s = Inl e"
  obtain s1 where "for_each body pre s = Inr s1" using for_each_returns [of pre body s] a by blast
  then show ?thesis using b by (simp add: for_each_append)
qed

text \<open>
  C5 (as amended). A failure raised while processing one article or one publication is
  not absorbed, whichever read it comes from (a request to the client, an attribute of
  the object, a response, a missing key, the empty counter): the operation returns no
  table, with or without loading, whatever was extracted before and whatever would come
  after; when the entities before it are processed without failure, the operation ends
  in that very failure.
\<close>

theorem article_or_publication_failure_ends_the_run:
  "(r \<in> set df \<and> article_failure E r = Some e \<longrightarrow>
      (\<exists>e'. fetch_user_articles_info E df cfg load_to_bq w = (Inl e', w)))
   \<and> ((\<forall>x\<in>set pre. article_failure E x = None) \<and> article_failure E r = Some e \<longrightarrow>
      fetch_user_articles_info E (pre @ r # post) cfg load_to_bq w = (Inl e, w))
   \<and> (medium_search_publications E topic = Inr ps \<and> p \<in> set ps
      \<and> publication_failure p = Some e2 \<longrightarrow>
      (\<exists>e'. fetch_publications_info E topic cfg load_to_bq w = (Inl e', w)))
   \<and> (medium_search_publications E topic = Inr (ppre @ p # ppost)
      \<and> (\<forall>x\<in>set ppre. publication_failure x = None) \<and> publication_failure p = Some e2 \<longrightarrow>
      fetch_publications_info E topic cfg load_to_bq w = (Inl e2, w))"
proof (intro conjI impI)
  assume a: "r \<in> set df \<and> article_failure E r = Some e"
  then have "\<And>s. article_step E r s = Inl e" by (simp add: article_step_raises)
  then obtain e' where "for_each (article_step E) df no_articles_tables = Inl e'"
    using a for_each_some_raises [of r df "article_step E" e no_articles_tables] by blast
  then show "\<exists>e'. fetch_user_articles_info E df cfg load_to_bq w = (Inl e', w)"
    by (simp add: fetch_user_articles_info_def)
next
  assume a: "(\<forall>x\<in>set pre. article_failure E x = None) \<and> article_failure E r = Some e"
  then have "\<And>s. article_step E r s = Inl e" by (simp add: article_step_raises)
  moreover have "\<And>x s. x \<in> set pre \<Longrightarrow> \<exists>s'. article_step E x s = Inr s'"
    using a by (simp add: article_step_returns)
  ultimately have "for_each (article_step E) (pre @ r # post) no_articles_tables = Inl e"
    by (rule for_each_first_raises [rotated])
  then show "fetch_user_articles_info E (pre @ r # post) cfg load_to_bq w = (Inl e, w)"
    by (simp add: fetch_user_articles_info_def)
next
  assume a: "medium_search_publications E topic = Inr ps \<and> p \<in> set ps
      \<and> publication_failure p = Some e2"
  then have "\<And>s. publication_step p s = Inl e2" by (simp add: publication_step_raises)
  then obtain e' where "for_each publication_step ps no_publications_tables = Inl e'"
    using a for_each_some_raises [of p ps publication_step e2 no_publications_tables] by blast
  then show "\<exists>e'. fetch_publications_info E topic cfg load_to_bq w = (Inl e', w)"
    using a by (simp add: fetch_publications_info_def)
next
  assume a: "medium_search_publications E topic = Inr (ppre @ p # ppost)
      \<and> (\<forall>x\<in>set ppre. publication_failure x = None) \<and> publication_failure p = Some e2"
  then have "\<And>s. publication_step p s = Inl e2" by (simp add: publication_step_raises)
  moreover have "\<And>x s. x \<in> set ppre \<Longrightarrow> \<exists>s'. publication_step x s = Inr s'"
    using a by (simp add: publication_step_returns)
  ultimately have "for_each publication_step (ppre @ p # ppost) no_publications_tables = Inl e2"
    by (rule for_each_first_raises [rotated])
  then show "fetch_publications_info E topic cfg load_to_bq w = (Inl e2, w)"
    using a by (simp add: fetch_publications_info_def)
qed

theorem article_or_publication_failure_ends_the_run_witness:
  "article_failure library_env (article_row ''a2'') = None
   \<and> article_failure library_env (article_row ''a3'') = Some (ExternalError ''fans unavailable'')
   \<and> fetch_user_articles_info library_env
       ([article_row ''a2''] @ article_row ''a3'' # [article_row ''a2''])
       mock_config False world0 = (Inl (ExternalError ''fans unavailable''), world0)
   \<and> medium_search_publications
       (search_env ([publication_one] @ publication_down # [publication_one])) ''data''
       = Inr ([publication_one] @ publication_down # [publication_one])
   \<and> publication_failure publication_one = None
   \<and> publication_failure publication_down = Some (ExternalError ''timeout'')
   \<and> fetch_publications_info
       (search_env ([publication_one] @ publication_down # [publication_one])) ''data''
       mock_config False world0 = (Inl (ExternalError ''timeout''), world0)"
proof -
  have a2: "article_failure library_env (article_row ''a2'') = None" by code_simp
  then have a: "\<forall>x\<in>set [article_row ''a2'']. article_failure library_env x = None" by simp
  have b: "article_failure library_env (article_row ''a3'')
             = Some (ExternalError ''fans unavailable'')"
    by code_simp
  have c: "medium_search_publications
             (search_env ([publication_one] @ publication_down # [publication_one])) ''data''
             = Inr ([publication_one] @ publication_down # [publication_one])"
    by (simp add: search_env_def)
  have p1: "publication_failure publication_one = None" by code_simp
  then have d: "\<forall>x\<in>set [publication_one]. publication_failure x = None" by simp
  have e: "publication_failure publication_down = Some (ExternalError ''timeout'')"
    by code_simp
  have "fetch_user_articles_info library_env
          ([article_row ''a2''] @ article_row ''a3'' # [article_row ''a2''])
          mock_config False world0 = (Inl (ExternalError ''fans unavailable''), world0)"
    using article_or_publication_failure_ends_the_run
            [where E = library_env and pre = "[article_row ''a2'']"
               and r = "article_row ''a3''" and e = "ExternalError ''fans unavailable''"
               and post = "[article_row ''a2'']" and cfg = mock_config
               and load_to_bq = False and w = world0]
          a b by blast
  moreover have "fetch_publications_info
          (search_env ([publication_one] @ publication_down # [publication_one])) ''data''
          mock_config False world0 = (Inl (ExternalError ''timeout''), world0)"
    using article_or_publication_failure_ends_the_run
            [where E = "search_env ([publication_one] @ publication_down # [publication_one])"
               and topic = "''data''" and ppre = "[publication_one]" and p = publication_down
               and ppost = "[publication_one]" and ?e2.0 = "ExternalError ''timeout''"
               and cfg = mock_config and load_to_bq = False and w = world0]
          c d e by blast
  ultimately show ?thesis using a2 b c p1 e by (intro conjI) (assumption+)
qed

text \<open>
  C5 as the specification states it fails: the second of two articles has a response
  whose info cannot be read, and the first, which alone yields one row of article
  information, appears in no returned table; likewise a healthy publication is lost when
  the request for the one after it fails.
\<close>

theorem failure_not_isolated_counterexample:
  "fetch_user_articles_info library_env [article_row ''a2'', article_row ''a4'']
     mock_config False world0 = (Inl (ExternalError ''response unavailable''), world0)
   \<and> map_sum id (\<lambda>t. length (articles_info_df t))
       (fst (fetch_user_articles_info library_env [article_row ''a2'']
               mock_config False world0)) = Inr 1
   \<and> fetch_publications_info (search_env [publication_one, publication_down]) ''data''
       mock_config False world0 = (Inl (ExternalError ''timeout''), world0)
   \<and> map_sum id (\<lambda>t. length (publication_info_df t))
       (fst (fetch_publications_info (search_env [publication_one]) ''data''
               mock_config False world0)) = Inr 1"
  by code_simp

text \<open>
  C4 (as amended). For every description, scoring an empty tag sequence fails, with the
  IndexError of taking the first of no items; in publication extraction this failure is
  not absorbed: a publication whose tag list is empty ends the whole operation in that
  failure, whatever was extracted before it, and no table is returned.
\<close>

theorem empty_tags_end_publication_extraction:
  "most_relevant_tag description [] = Inl (IndexError ''list index out of range'')
   \<and> (medium_search_publications E topic = Inr (pre @ p # post)
      \<and> for_each publication_step pre no_publications_tables = Inr t1
      \<and> p_info p = Inr info \<and> map_of info ''tags'' = Some (PList [])
      \<and> map_of info ''description'' = Some (PStr description)
      \<and> p_articles p = Inr ids \<longrightarrow>
      fetch_publications_info E topic cfg load_to_bq w
        = (Inl (IndexError ''list index out of range''), w))"
proof (intro conjI impI)
  show "most_relevant_tag description [] = Inl (IndexError ''list index out of range'')"
    by (simp add: most_relevant_tag_def score_words_no_tags)
next
  assume a: "medium_search_publications E topic = Inr (pre @ p # post)
      \<and> for_each publication_step pre no_publications_tables = Inr t1
      \<and> p_info p = Inr info \<and> map_of info ''tags'' = Some (PList [])
      \<and> map_of info ''description'' = Some (PStr description)
      \<and> p_articles p = Inr ids"
  have "publication_step p t1 = Inl (IndexError ''list index out of range'')"
    using a
    by (simp add: publication_step_def bind_err_def Let_def getitem_def map_of_pop_other
          pop_value score_words_no_tags)
  then show "fetch_publications_info E topic cfg load_to_bq w
        = (Inl (IndexError ''list index out of range''), w)"
    using a by (simp add: fetch_publications_info_def for_each_raises)
qed

text \<open>
  C4 as the specification states it fails: a publication without tags that follows a
  healthy one is not treated as a failure of that publication alone; the operation
  returns the failure and none of the tables, although the healthy publication alone
  yields its rows.
\<close>

theorem empty_tags_not_isolated_counterexample:
  "fetch_publications_info (search_env [publication_one, publication_untagged]) ''data''
     mock_config False world0 = (Inl (IndexError ''list index out of range''), world0)
   \<and> map_sum id (\<lambda>t. map (\<lambda>r. map_of r ''most_relevant_tag'') (publication_info_df t))
       (fst (fetch_publications_info (search_env [publication_one]) ''data''
               mock_config False world0)) = Inr [Some (PStr ''data-science'')]"
  by code_simp

theorem empty_tags_end_publication_extraction_witness:
  "medium_search_publications (search_env [publication_untagged, publication_one]) ''data''
     = Inr ([] @ publication_untagged # [publication_one])
   \<and> for_each publication_step [] no_publications_tables = Inr no_publications_tables
   \<and> p_info publication_untagged
       = Inr [(''id'', PStr ''p3''), (''description'', PStr ''Notes''),
              (''tags'', PList []), (''editors'', PList [])]
   \<and> p_articles publication_untagged = Inr []
   \<and> fetch_publications_info (search_env [publication_untagged, publication_one]) ''data''
       mock_config False world0 = (Inl (IndexError ''list index out of range''), world0)"
proof -
  have a: "medium_search_publications (search_env [publication_untagged, publication_one]) ''data''
             = Inr ([] @ publication_untagged # [publication_one])"
    by code_simp
  have b: "for_each publication_step [] no_publications_tables = Inr no_publications_tables"
    by simp
  have c: "p_info publication_untagged
             = Inr [(''id'', PStr ''p3''), (''description'', PStr ''Notes''),
                    (''tags'', PList []), (''editors'', PList [])]"
    by (simp add: publication_untagged_def)
  have d: "map_of [(''id'', PStr ''p3''), (''description'', PStr ''Notes''),
                   (''tags'', PList []), (''editors'', PList [])] ''tags'' = Some (PList [])"
    by simp
  have e: "map_of [(''id'', PStr ''p3''), (''description'', PStr ''Notes''),
                   (''tags'', PList []), (''editors'', PList [])] ''description''
             = Some (PStr ''Notes'')"
    by simp
  have f: "p_articles publication_untagged = Inr []"
    by (simp add: publication_untagged_def)
  have "fetch_publications_info (search_env [publication_untagged, publication_one]) ''data''
          mock_config False world0 = (Inl (IndexError ''list index out of range''), world0)"
    using empty_tags_end_publication_extraction
            [where E = "search_env [publication_untagged, publication_one]"
               and topic = "''data''" and pre = "[]" and p = publication_untagged
               and post = "[publication_one]" and ?t1.0 = no_publications_tables
               and info = "[(''id'', PStr ''p3''), (''description'', PStr ''Notes''),
                            (''tags'', PList []), (''editors'', PList [])]"
               and description = "''Notes''" and ids = "[]" and cfg = mock_config
               and load_to_bq = False and w = world0]
          a b c d e f by blast
  then show ?thesis using a b c f by simp
qed

section \<open>The capture date of the top feeds\<close>

lemma decimal_digit: "n < 10 \<Longrightarrow> decimal n = [digit n]"
  by (simp add: decimal.simps)

lemma decimal_more: "10 \<le> n \<Longrightarrow> decimal n = decimal (n div 10) @ [digit (n mod 10)]"
  by (subst decimal.simps) simp

lemma decimal_four:
  assumes "1000 \<le> n" "n \<le> 9999"
  shows "decimal n = [digit (n div 1000), digit (n div 100 mod 10), digit (n div 10 mod 10),
                      digit (n mod 10)]"
proof -
  have a: "10 \<le> n" "10 \<le> n div 10" "10 \<le> n div 10 div 10" "n div 10 div 10 div 10 < 10"
    using assms by auto
  have b: "n div 10 div 10 = n div 100" "n div 100 div 10 = n div 1000"
    by (simp_all add: div_mult2_eq [symmetric])
  have "decimal n = decimal (n div 10) @ [digit (n mod 10)]"
    using a(1) by (rule decimal_more)
  also have "decimal (n div 10) = decimal (n div 10 div 10) @ [digit (n div 10 mod 10)]"
    using a(2) by (rule decimal_more)
  also have "decimal (n div 10 div 10)
               = decimal (n div 10 div 10 div 10) @ [digit (n div 10 div 10 mod 10)]"
    using a(3) by (rule decimal_more)
  also have "decimal (n div 10 div 10 div 10) = [digit (n div 10 div 10 div 10)]"
    using a(4) by (rule decimal_digit)
  finally show ?thesis by (simp add: b)
qed

lemma digit_zero: "digit 0 = CHR ''0''"
  by code_simp

lemma two_digits_eq: "n \<le> 99 \<Longrightarrow> two_digits n = [digit (n div 10), digit (n mod 10)]"
proof (cases "n < 10")
  case True
  then show ?thesis by (simp add: two_digits_def decimal_digit digit_zero)
next
  case False
  assume "n \<le> 99"
  with False have "10 \<le> n" "n div 10 < 10" by auto
  then show ?thesis using False by (simp add: two_digits_def decimal_more decimal_digit)
qed

lemma strftime_calendar:
  assumes "calendar_date d"
  shows "strftime d =
           [digit (year d div 1000), digit (year d div 100 mod 10),
            digit (year d div 10 mod 10), digit (year d mod 10), CHR ''-'',
            digit (month d div 10), digit (month d mod 10), CHR ''-'',
            digit (day d div 10), digit (day d mod 10)]"
proof -
  have "1000 \<le> year d" "year d \<le> 9999" "month d \<le> 99" "day d \<le> 99"
    using assms by (auto simp: calendar_date_def)
  then show ?thesis by (simp add: strftime_def decimal_four two_digits_eq)
qed

lemma feed_step_rows:
  "feed_step E topic count d feed df = Inr df' \<Longrightarrow>
     \<forall>r\<in>set df. map_of r ''captured_on_date'' = Some (PStr (strftime d)) \<Longrightarrow>
     \<forall>r\<in>set df'. map_of r ''captured_on_date'' = Some (PStr (strftime d))"
  by (auto simp: feed_step_def bind_err_def split: sum.splits)

lemma for_each_feed_rows:
  "for_each (feed_step E topic count d) modes df = Inr df' \<Longrightarrow>
     \<forall>r\<in>set df. map_of r ''captured_on_date'' = Some (PStr (strftime d)) \<Longrightarrow>
     \<forall>r\<in>set df'. map_of r ''captured_on_date'' = Some (PStr (strftime d))"
proof (induction modes arbitrary: df)
  case Nil
  then show ?case by simp
next
  case (Cons m modes)
  from Cons.prems(1) obtain df1 where s: "feed_step E topic count d m df = Inr df1"
      "for_each (feed_step E topic count d) modes df1 = Inr df'"
    by (auto split: sum.splits)
  have "\<forall>r\<in>set df1. map_of r ''captured_on_date'' = Some (PStr (strftime d))"
    using feed_step_rows [OF s(1) Cons.prems(2)] .
  then show ?case using Cons.IH [OF s(2)] by blast
qed

lemma for_each_feed_succeeds:
  "\<forall>m\<in>set modes. \<exists>ids. medium_topfeeds_ids E topic count m = Inr ids \<Longrightarrow>
     \<exists>df'. for_each (feed_step E topic count d) modes df = Inr df'"
proof (induction modes arbitrary: df)
  case Nil
  show ?case by simp
next
  case (Cons m modes)
  then obtain ids where "medium_topfeeds_ids E topic count m = Inr ids" by auto
  then obtain df1 where "feed_step E topic count d m df = Inr df1"
    by (simp add: feed_step_def bind_err_def)
  then show ?case using Cons.IH [of df1] Cons.prems by simp
qed

lemma finish_result: "fst (finish E cfg b tabs r w) = Inr r' \<Longrightarrow> r' = r"
  by (auto simp: finish_def split: if_splits prod.splits option.splits)

text \<open>
  C10. In one invocation of top-feed extraction the date is read once, before the loop
  over the feed modes: every row of the returned table, whatever its mode and however
  many modes there are, carries that date in the form YYYY-MM-DD (four digits of the
  year, two of the month, two of the day, separated by hyphens). When every feed request
  succeeds and nothing is loaded, a table is returned.
\<close>

theorem top_feeds_share_capture_date:
  assumes "calendar_date (datetime_now E 0)"
  shows "(\<forall>df. fst (fetch_top_feeds E topic modes count cfg load_to_bq w) = Inr df \<longrightarrow>
            (\<forall>r\<in>set df. map_of r ''captured_on_date''
                            = Some (PStr (strftime (datetime_now E 0)))))
       \<and> strftime (datetime_now E 0) =
           [digit (year (datetime_now E 0) div 1000), digit (year (datetime_now E 0) div 100 mod 10),
            digit (year (datetime_now E 0) div 10 mod 10), digit (year (datetime_now E 0) mod 10),
            CHR ''-'',
            digit (month (datetime_now E 0) div 10), digit (month (datetime_now E 0) mod 10),
            CHR ''-'',
            digit (day (datetime_now E 0) div 10), digit (day (datetime_now E 0) mod 10)]
       \<and> ((\<forall>m\<in>set modes. \<exists>ids. medium_topfeeds_ids E topic count m = Inr ids) \<longrightarrow>
            (\<exists>df. fst (fetch_top_feeds E topic modes count cfg False w) = Inr df))"
proof (intro conjI allI impI)
  fix df
  assume r: "fst (fetch_top_feeds E topic modes count cfg load_to_bq w) = Inr df"
  show "\<forall>r\<in>set df. map_of r ''captured_on_date'' = Some (PStr (strftime (datetime_now E 0)))"
  proof (cases "for_each (feed_step E topic count (datetime_now E 0)) modes []")
    case (Inl e)
    then show ?thesis using r by (simp add: fetch_top_feeds_def Let_def)
  next
    case (Inr df')
    then have "fst (finish E cfg load_to_bq [(''top_feeds_table'', df')] df' w) = Inr df"
      using r by (simp add: fetch_top_feeds_def Let_def)
    then have "df = df'" by (rule finish_result)
    then show ?thesis using for_each_feed_rows [OF Inr] by simp
  qed
next
  show "strftime (datetime_now E 0) =
           [digit (year (datetime_now E 0) div 1000), digit (year (datetime_now E 0) div 100 mod 10),
            digit (year (datetime_now E 0) div 10 mod 10), digit (year (datetime_now E 0) mod 10),
            CHR ''-'',
            digit (month (datetime_now E 0) div 10), digit (month (datetime_now E 0) mod 10),
            CHR ''-'',
            digit (day (datetime_now E 0) div 10), digit (day (datetime_now E 0) mod 10)]"
    using strftime_calendar [OF assms] .
next
  assume "\<forall>m\<in>set modes. \<exists>ids. medium_topfeeds_ids E topic count m = Inr ids"
  then obtain df' where "for_each (feed_step E topic count (datetime_now E 0)) modes [] = Inr df'"
    using for_each_feed_succeeds by blast
  then show "\<exists>df. fst (fetch_top_feeds E topic modes count cfg False w) = Inr df"
    by (simp add: fetch_top_feeds_def Let_def finish_False)
qed

theorem top_feeds_share_capture_date_witness:
  "calendar_date (datetime_now feeds_env 0)
   \<and> datetime_now feeds_env 1 \<noteq> datetime_now feeds_env 0
   \<and> (\<exists>df. fst (fetch_top_feeds feeds_env ''data'' [''hot'', ''new''] (PInt 2) mock_config
                   False world0) = Inr df
        \<and> length df = 3
        \<and> (\<forall>r\<in>set df. map_of r ''captured_on_date'' = Some (PStr ''2024-03-07'')))"
proof -
  have c: "calendar_date (datetime_now feeds_env 0)" by code_simp
  have n: "datetime_now feeds_env 1 \<noteq> datetime_now feeds_env 0" by code_simp
  have s: "strftime (datetime_now feeds_env 0) = ''2024-03-07''" by code_simp
  have l: "map_sum id length (fst (fetch_top_feeds feeds_env ''data'' [''hot'', ''new''] (PInt 2)
             mock_config False world0)) = Inr 3"
    by code_simp
  then obtain df where d: "fst (fetch_top_feeds feeds_env ''data'' [''hot'', ''new''] (PInt 2)
             mock_config False world0) = Inr df" "length df = 3"
    by (cases "fst (fetch_top_feeds feeds_env ''data'' [''hot'', ''new''] (PInt 2)
             mock_config False world0)") auto
  have "\<forall>r\<in>set df. map_of r ''captured_on_date'' = Some (PStr (strftime (datetime_now feeds_env 0)))"
    using top_feeds_share_capture_date
            [where E = feeds_env and topic = "''data''" and modes = "[''hot'', ''new'']"
               and count = "PInt 2" and cfg = mock_config and load_to_bq = False
               and w = world0, OF c] d(1)
    by blast
  then show ?thesis using c n d s by auto
qed

end
